theory Spec2Isabelle
  imports Main "HOL-Library.Sublist"
begin

section \<open>Booking lifecycle engine: data model\<close>

text \<open>
  The booking document of \<^verbatim>\<open>models/Booking.js\<close> (the mongoose schema, \<^verbatim>\<open>unnamed/part_002\<close>), with the
  sub-documents the lifecycle routes read or write. An ObjectId is a natural number, a
  \<^verbatim>\<open>Date\<close> is its number of milliseconds since the epoch, an optional schema path is
  an \<open>option\<close>. The enum-as-string fields stay strings, as in the source: the routes
  compare and assign string literals, and the timeline carries statuses (\<^verbatim>\<open>resolved\<close>)
  that are no booking status.

  \<^verbatim>\<open>payment\<close>, \<^verbatim>\<open>notes\<close>, \<^verbatim>\<open>rating\<close> and \<^verbatim>\<open>dispute\<close> are nested paths of the
  schema, not sub-schemas: on a loaded document each of them is always an object, so
  \<^verbatim>\<open>booking.payment\<close>, \<^verbatim>\<open>booking.notes\<close>, \<^verbatim>\<open>booking.rating\<close> and
  \<^verbatim>\<open>booking.dispute\<close> are truthy whatever was stored, and what may be absent are their
  leaves. A booking on which no dispute was raised has a dispute with every leaf absent.
  The payment status has the schema default \<^verbatim>\<open>pending\<close> and is never absent.
\<close>

type_synonym oid = nat
type_synonym date = nat

record payment =
  p_status :: string
  transactionId :: "string option"
  payoutId :: "string option"
  paidAt :: "date option"
  payoutAt :: "date option"
  p_notes :: "string option"

record booking_notes =
  customerNotes :: "string option"
  vendorNotes :: "string option"

record rating =
  score :: "int option"
  review :: "string option"
  r_date :: "date option"

record dispute =
  raisedBy :: "oid option"
  reason :: "string option"
  description :: "string option"
  d_status :: "string option"
  createdAt :: "date option"
  resolution :: "string option"
  resolvedBy :: "oid option"
  resolvedAt :: "date option"

record entry =
  t_status :: string
  t_note :: string
  timestamp :: date

text \<open>
  \<open>vendor_user\<close> is the populated \<^verbatim>\<open>booking.vendor?.user?._id\<close>: \<open>None\<close> when the
  vendor document or its user is gone.
\<close>

record booking =
  customer :: oid
  vendor_user :: "oid option"
  status :: string
  payment :: payment
  b_notes :: booking_notes
  rating :: rating
  completionOtp :: "string option"
  completionOtpExpires :: "date option"
  dispute :: dispute
  timeline :: "entry list"

text \<open>The collection: \<^verbatim>\<open>Booking.findById\<close> reads it, \<^verbatim>\<open>booking.save()\<close> writes it.\<close>

type_synonym store = "oid \<rightharpoonup> booking"

text \<open>\<^verbatim>\<open>req.user\<close>, as \<^verbatim>\<open>authenticateToken\<close> leaves it.\<close>

record user =
  uid :: oid
  role :: string

text \<open>
  What a handler takes from outside: the clock (\<^verbatim>\<open>Date.now()\<close>), the integer
  \<^verbatim>\<open>Math.floor(100000 + Math.random() * 900000)\<close> drawn for a new code, and the
  identifiers of the user collection, where \<^verbatim>\<open>populate('customer', '_id')\<close> looks the
  booking's customer up (it leaves \<^verbatim>\<open>null\<close> when the account is gone).
\<close>

record env =
  now :: date
  otp_draw :: nat
  accounts :: "oid set"

text \<open>\<^verbatim>\<open>res.status(code).json({ error: msg })\<close> against \<^verbatim>\<open>res.json(value)\<close>.\<close>

datatype 'a response = Err nat string | Ok 'a

text \<open>JavaScript truthiness of an optional string: \<^verbatim>\<open>undefined\<close> and \<^verbatim>\<open>""\<close> are falsy.\<close>

fun truthy :: "string option \<Rightarrow> bool" where
  "truthy None = False"
| "truthy (Some s) = (s \<noteq> [])"

text \<open>\<^verbatim>\<open>a || b\<close> on an optional string and a default.\<close>

fun or_else :: "string option \<Rightarrow> string \<Rightarrow> string" where
  "or_else None d = d"
| "or_else (Some s) d = (if s = [] then d else s)"

text \<open>\<^verbatim>\<open>Number.prototype.toString()\<close> of a non-negative integer: its decimal digits.\<close>

fun dec :: "nat \<Rightarrow> string" where
  "dec n = (if n < 10 then [char_of (48 + n)]
            else dec (n div 10) @ [char_of (48 + n mod 10)])"

declare dec.simps [simp del]

section \<open>The booking routes (second module of \<^verbatim>\<open>server/routes/messages.js\<close>)\<close>

subsection \<open>\<^verbatim>\<open>PATCH /:id/status\<close>\<close>

record status_body =
  req_status :: string
  req_notes :: "string option"
  req_otp :: "string option"

definition validStatuses :: "string list" where
  "validStatuses = [''pending'', ''confirmed'', ''in-progress'', ''completed'', ''cancelled'',
     ''verification-pending'', ''rejected'']"

definition allowedVendorStatuses :: "string list" where
  "allowedVendorStatuses = [''confirmed'', ''rejected'', ''in-progress'',
     ''verification-pending'', ''cancelled'', ''completed'']"

text \<open>
  The two assignments that close the OTP block: the code is cleared and the payment is
  marked ready for payout. The guard \<^verbatim>\<open>if (booking.payment)\<close> always passes, the
  payment being a nested path.
\<close>

definition consumeOtp :: "booking \<Rightarrow> booking" where
  "consumeOtp b =
     b\<lparr>completionOtp := None,
       payment := (payment b)\<lparr>p_status := ''payout_pending''\<rparr>\<rparr>"

text \<open>
  The block under \<^verbatim>\<open>// --- OTP Verification Logic ---\<close>. It returns the response of an
  early \<^verbatim>\<open>return\<close>, or the in-memory document as the block leaves it. The comparison
  \<^verbatim>\<open>booking.completionOtp !== otp\<close> is strict inequality of the stored and the supplied
  string.
\<close>

definition otpVerification ::
  "bool \<Rightarrow> bool \<Rightarrow> status_body \<Rightarrow> booking \<Rightarrow> booking response" where
  "otpVerification isVendor isAdmin body b =
     (if req_status body = ''completed'' \<and> status b = ''verification-pending'' then
        (if isVendor then
           (if \<not> truthy (req_otp body) then
              Err 400 ''OTP is required to complete the booking.''
            else if completionOtp b \<noteq> req_otp body then
              Err 400 ''Invalid OTP provided.''
            else Ok (consumeOtp b))
         else if \<not> isAdmin then
           Err 403 ''Only the vendor or an admin can complete this booking.''
         else Ok (consumeOtp b))
      else Ok b)"

text \<open>
  The block under \<^verbatim>\<open>// --- Role-based status transition validation ---\<close>: the response
  of the first \<^verbatim>\<open>return\<close> it reaches, if any.
\<close>

definition roleValidation ::
  "bool \<Rightarrow> bool \<Rightarrow> status_body \<Rightarrow> booking \<Rightarrow> booking response option" where
  "roleValidation isCustomer isVendor body b =
     (if isCustomer \<and> req_status body \<noteq> ''cancelled'' then
        Some (Err 403 ''As a customer, you can only cancel a booking.'')
      else if isCustomer \<and> status b \<in> set [''completed'', ''cancelled'', ''rejected''] then
        Some (Err 400 (''Cannot cancel a booking that is already '' @ status b @ ''.''))
      else if isVendor \<and> req_status body \<notin> set allowedVendorStatuses then
        Some (Err 403 (''As a vendor, you cannot set the status to '' @ [CHR 0x27]
                       @ req_status body @ [CHR 0x27] @ ''.''))
      else if isVendor \<and> req_status body = ''completed''
              \<and> status b \<noteq> ''verification-pending'' then
        Some (Err 400
          ''Cannot complete a booking directly. Please use the OTP verification flow.'')
      else None)"

text \<open>
  From \<^verbatim>\<open>let generatedOtp = null\<close> to the \<^verbatim>\<open>timeline.push\<close>: the writes to the in-memory
  document that \<^verbatim>\<open>booking.save()\<close> then persists.
\<close>

definition generateOtp :: "env \<Rightarrow> status_body \<Rightarrow> booking \<Rightarrow> booking" where
  "generateOtp e body b =
     (if req_status body = ''verification-pending'' then
        b\<lparr>completionOtp := Some (dec (otp_draw e)),
          completionOtpExpires := Some (now e + 10 * 60 * 1000)\<rparr>
      else b)"

text \<open>
  The notes of the request go to the field of the caller's role. The line
  \<^verbatim>\<open>if (!booking.notes) booking.notes = {}\<close> never fires, the notes being a nested
  path, so a caller of another role (an administrator) leaves the notes as they were.
\<close>

definition setNotes :: "user \<Rightarrow> status_body \<Rightarrow> booking \<Rightarrow> booking" where
  "setNotes u body b =
     (if truthy (req_notes body) then
        (if role u = ''customer'' then
           b\<lparr>b_notes := (b_notes b)\<lparr>customerNotes := req_notes body\<rparr>\<rparr>
         else if role u = ''vendor'' then
           b\<lparr>b_notes := (b_notes b)\<lparr>vendorNotes := req_notes body\<rparr>\<rparr>
         else b)
      else b)"

definition statusEntry :: "env \<Rightarrow> user \<Rightarrow> status_body \<Rightarrow> entry" where
  "statusEntry e u body =
     \<lparr>t_status = req_status body,
      t_note = or_else (req_notes body)
                 (''Status updated to '' @ req_status body @ '' by '' @ role u),
      timestamp = now e\<rparr>"

definition applyStatus :: "env \<Rightarrow> user \<Rightarrow> status_body \<Rightarrow> booking \<Rightarrow> booking" where
  "applyStatus e u body b =
     (let b1 = generateOtp e body b;
          b2 = b1\<lparr>status := req_status body\<rparr>;
          b3 = setNotes u body b2
      in b3\<lparr>timeline := timeline b3 @ [statusEntry e u body]\<rparr>)"

text \<open>
  The handler. Every early \<^verbatim>\<open>return\<close> leaves the collection as it was: the document
  is written by the one \<^verbatim>\<open>booking.save()\<close> at the end only. The notification and the
  backup mail that follow the save do not write the collection and are left out.
\<close>

definition changeStatus ::
  "env \<Rightarrow> user \<Rightarrow> oid \<Rightarrow> status_body \<Rightarrow> store \<Rightarrow> booking response \<times> store" where
  "changeStatus e u bid body db =
     (if req_status body \<notin> set validStatuses then
        (Err 400 (''Invalid status provided: '' @ req_status body @ ''.''), db)
      else case db bid of
        None \<Rightarrow> (Err 404 ''Booking not found'', db)
      | Some b \<Rightarrow>
          (let isCustomer = (customer b = uid u);
               isVendor = (vendor_user b = Some (uid u));
               isAdmin = (role u = ''admin'')
           in if \<not> isCustomer \<and> \<not> isVendor \<and> \<not> isAdmin then
                (Err 403 ''Access denied. You cannot update this booking.'', db)
              else case otpVerification isVendor isAdmin body b of
                Err c m \<Rightarrow> (Err c m, db)
              | Ok b1 \<Rightarrow>
                  (case roleValidation isCustomer isVendor body b1 of
                     Some r \<Rightarrow> (r, db)
                   | None \<Rightarrow>
                       (let b2 = applyStatus e u body b1
                        in (Ok b2, db(bid \<mapsto> b2))))))"

subsection \<open>\<^verbatim>\<open>GET /:id/otp\<close>\<close>

text \<open>
  The customer's read of the code. The stored code is regenerated, and saved, when it is
  missing or has no expiry or its expiry is before the clock; the response carries the
  code of the document as it then is.
\<close>

definition otpStale :: "env \<Rightarrow> booking \<Rightarrow> bool" where
  "otpStale e b =
     (\<not> truthy (completionOtp b)
      \<or> (case completionOtpExpires b of None \<Rightarrow> True | Some x \<Rightarrow> x < now e))"

definition regenerateOtp :: "env \<Rightarrow> booking \<Rightarrow> booking" where
  "regenerateOtp e b =
     b\<lparr>completionOtp := Some (dec (otp_draw e)),
       completionOtpExpires := Some (now e + 10 * 60 * 1000)\<rparr>"

definition getOtp :: "env \<Rightarrow> user \<Rightarrow> oid \<Rightarrow> store \<Rightarrow> string option response \<times> store" where
  "getOtp e u bid db =
     (case db bid of
        None \<Rightarrow> (Err 404 ''Booking not found.'', db)
      | Some b \<Rightarrow>
          if customer b \<noteq> uid u then
            (Err 403 ''Access denied. You are not the customer for this booking.'', db)
          else if status b \<noteq> ''verification-pending'' then
            (Err 400 ''OTP is only available for bookings pending verification.'', db)
          else if otpStale e b then
            (let b1 = regenerateOtp e b
             in (Ok (completionOtp b1), db(bid \<mapsto> b1)))
          else (Ok (completionOtp b), db))"

subsection \<open>\<^verbatim>\<open>POST /:id/dispute\<close>\<close>

record dispute_body =
  req_reason :: "string option"
  req_description :: "string option"

definition reportableStatuses :: "string list" where
  "reportableStatuses = [''in-progress'', ''verification-pending'', ''completed'']"

text \<open>
  The writes between the checks and \<^verbatim>\<open>booking.save()\<close>: the status is forced to
  \<^verbatim>\<open>reported\<close>, the dispute sub-document is replaced, one timeline entry is pushed
  (its timestamp is the schema default, the clock).
\<close>

definition openDispute :: "env \<Rightarrow> user \<Rightarrow> string \<Rightarrow> string \<Rightarrow> booking \<Rightarrow> booking" where
  "openDispute e u rsn dsc b =
     b\<lparr>status := ''reported'',
       dispute := \<lparr>raisedBy = Some (uid u), reason = Some rsn, description = Some dsc,
                   d_status = Some ''open'', createdAt = Some (now e),
                   resolution = None, resolvedBy = None, resolvedAt = None\<rparr>,
       timeline := timeline b @
         [\<lparr>t_status = ''reported'',
           t_note = ''Dispute raised by '' @ role u @ '': '' @ [CHR 0x22] @ rsn @ [CHR 0x22],
           timestamp = now e\<rparr>]\<rparr>"

definition raiseDispute ::
  "env \<Rightarrow> user \<Rightarrow> oid \<Rightarrow> dispute_body \<Rightarrow> store \<Rightarrow> booking response \<times> store" where
  "raiseDispute e u bid body db =
     (if \<not> truthy (req_reason body) \<or> \<not> truthy (req_description body) then
        (Err 400 ''Reason and description are required to report an issue.'', db)
      else case db bid of
        None \<Rightarrow> (Err 404 ''Booking not found.'', db)
      | Some b \<Rightarrow>
          (let isCustomer = (customer b = uid u);
               isVendor = (vendor_user b = Some (uid u))
           in if \<not> isCustomer \<and> \<not> isVendor then
                (Err 403 ''You are not authorized to report an issue for this booking.'', db)
              else if status b \<notin> set reportableStatuses then
                (Err 400 (''Cannot report an issue for a booking with status '' @ [CHR 0x22]
                          @ status b @ [CHR 0x22] @ ''.''), db)
              else if d_status (dispute b) = Some ''open'' then
                (Err 400
                  ''An issue has already been reported for this booking and is currently open.'',
                 db)
              else
                (let b1 = openDispute e u (or_else (req_reason body) [])
                            (or_else (req_description body) []) b
                 in (Ok b1, db(bid \<mapsto> b1)))))"

subsection \<open>\<^verbatim>\<open>POST /:id/review\<close>\<close>

record review_body =
  req_score :: "int option"
  req_review :: "string option"

text \<open>
  \<^verbatim>\<open>booking.save()\<close> runs the schema's validators on the paths that were set: the score
  has \<^verbatim>\<open>min: 1, max: 5\<close>, and an absent score passes. A failure is thrown and becomes
  the 500 of the handler's \<^verbatim>\<open>catch\<close> (the message is mongoose's).
\<close>

definition scoreValid :: "int option \<Rightarrow> bool" where
  "scoreValid s = (case s of None \<Rightarrow> True | Some n \<Rightarrow> 1 \<le> n \<and> n \<le> 5)"

text \<open>
  \<^verbatim>\<open>booking.rating && booking.rating.score\<close>: the rating is a nested path and always
  truthy, so the guard is the truthiness of the score; a number is truthy unless it is 0.
\<close>

definition hasScore :: "booking \<Rightarrow> bool" where
  "hasScore b = (case score (rating b) of None \<Rightarrow> False | Some n \<Rightarrow> n \<noteq> 0)"

text \<open>
  The recomputation of the vendor's average after the save writes the user collection,
  not the bookings, and is left out.
\<close>

definition setRating :: "env \<Rightarrow> review_body \<Rightarrow> booking \<Rightarrow> booking" where
  "setRating e body b =
     b\<lparr>rating := \<lparr>score = req_score body, review = req_review body,
                  r_date = Some (now e)\<rparr>\<rparr>"

definition submitReview ::
  "env \<Rightarrow> user \<Rightarrow> oid \<Rightarrow> review_body \<Rightarrow> store \<Rightarrow> booking response \<times> store" where
  "submitReview e u bid body db =
     (case db bid of
        None \<Rightarrow> (Err 404 ''Booking not found'', db)
      | Some b \<Rightarrow>
          if customer b \<noteq> uid u then
            (Err 403 ''Only the customer who made the booking can leave a review.'', db)
          else if status b \<noteq> ''completed'' then
            (Err 400 ''Can only review completed services.'', db)
          else if hasScore b then
            (Err 400 ''A review for this booking has already been submitted.'', db)
          else if \<not> scoreValid (req_score body) then
            (Err 500 ''Booking validation failed: rating.score'', db)
          else
            (let b1 = setRating e body b
             in (Ok b1, db(bid \<mapsto> b1))))"

section \<open>The admin route \<^verbatim>\<open>PATCH /disputes/:id/resolve\<close> (\<^verbatim>\<open>server/routes/admin.js\<close>)\<close>

record resolve_body =
  req_resolution :: "string option"
  req_finalStatus :: "string option"

text \<open>
  \<^verbatim>\<open>authorizeRole(['admin'])\<close> runs first. The payment status is derived from the final
  status; the guard \<^verbatim>\<open>if (booking.payment)\<close> around it always passes.
\<close>

definition derivePayment :: "string \<Rightarrow> payment \<Rightarrow> payment" where
  "derivePayment finalStatus p =
     (if finalStatus = ''completed'' then p\<lparr>p_status := ''payout_pending''\<rparr>
      else if finalStatus = ''cancelled'' then p\<lparr>p_status := ''refund_pending''\<rparr>
      else p)"

text \<open>
  The writes of the handler: the dispute is marked resolved with the resolution, the
  resolver and the clock, the booking takes the final status, the payment status is
  derived, one timeline entry (status \<^verbatim>\<open>resolved\<close>) is pushed.
\<close>

definition closeDispute :: "env \<Rightarrow> user \<Rightarrow> string \<Rightarrow> string \<Rightarrow> booking \<Rightarrow> booking" where
  "closeDispute e u res fin b =
     b\<lparr>dispute := (dispute b)\<lparr>d_status := Some ''resolved'', resolution := Some res,
                                resolvedBy := Some (uid u), resolvedAt := Some (now e)\<rparr>,
       status := fin,
       payment := derivePayment fin (payment b),
       timeline := timeline b @
         [\<lparr>t_status = ''resolved'',
           t_note = ''Admin resolved the dispute. Final status set to ''
             @ [CHR 0x27] @ fin @ [CHR 0x27] @ ''. Resolution: ''
             @ [CHR 0x22] @ res @ [CHR 0x22],
           timestamp = now e\<rparr>]\<rparr>"

text \<open>
  The handler. Of the guard \<^verbatim>\<open>!booking || !booking.dispute\<close> only the first half can
  hold, the dispute being a nested path: the 404 is answered when no booking has the
  identifier, and the status of the dispute is never read. The booking is loaded with
  \<^verbatim>\<open>populate('customer', '_id')\<close>; after \<^verbatim>\<open>booking.save()\<close> the notification reads
  \<^verbatim>\<open>booking.customer._id\<close>, which throws when the customer's account is gone, and the
  \<^verbatim>\<open>catch\<close> then answers 500 although the document has been written.
\<close>

definition resolveDispute ::
  "env \<Rightarrow> user \<Rightarrow> oid \<Rightarrow> resolve_body \<Rightarrow> store \<Rightarrow> booking response \<times> store" where
  "resolveDispute e u bid body db =
     (if role u \<notin> set [''admin''] then (Err 403 ''Access denied'', db)
      else if \<not> truthy (req_resolution body) \<or> \<not> truthy (req_finalStatus body) then
        (Err 400 ''Resolution notes and a final status are required.'', db)
      else
        (let res = or_else (req_resolution body) [];
             fin = or_else (req_finalStatus body) []
         in if fin \<notin> set [''completed'', ''cancelled''] then
              (Err 400 ''Invalid final status.'', db)
            else case db bid of
              None \<Rightarrow> (Err 404 ''Disputed booking not found.'', db)
            | Some b \<Rightarrow>
                (let b1 = closeDispute e u res fin b
                 in if customer b \<in> accounts e then (Ok b1, db(bid \<mapsto> b1))
                    else (Err 500 ''Server error while resolving dispute.'',
                          db(bid \<mapsto> b1)))))"

section \<open>The vendor route \<^verbatim>\<open>PATCH /bookings/:bookingId/status\<close> (\<^verbatim>\<open>unnamed/part_000\<close>)\<close>

record vendor_status_body =
  v_status :: string
  v_vendorNotes :: "string option"

definition vendorRouteStatuses :: "string list" where
  "vendorRouteStatuses = [''confirmed'', ''in-progress'', ''verification-pending'', ''cancelled'']"

text \<open>
  \<^verbatim>\<open>authorizeRole(['vendor'])\<close> and \<^verbatim>\<open>checkVendorVerification\<close> run first; the second
  reads the vendor collection, given here as the verification status of the caller's
  vendor profile (\<open>None\<close>: no profile). The handler does not compare the booking's vendor
  with the caller.
\<close>

text \<open>
  The writes of the handler. \<^verbatim>\<open>booking.notes = booking.notes || {}\<close> assigns the notes
  to themselves, the nested path being truthy.
\<close>

definition vendorApply :: "env \<Rightarrow> vendor_status_body \<Rightarrow> booking \<Rightarrow> booking" where
  "vendorApply e body b =
     b\<lparr>status := v_status body,
       b_notes := (if truthy (v_vendorNotes body)
                   then (b_notes b)\<lparr>vendorNotes := v_vendorNotes body\<rparr>
                   else b_notes b),
       timeline := timeline b @
         [\<lparr>t_status = v_status body,
           t_note = or_else (v_vendorNotes body) (''Status updated to '' @ v_status body),
           timestamp = now e\<rparr>]\<rparr>"

definition vendorUpdateStatus ::
  "env \<Rightarrow> user \<Rightarrow> string option \<Rightarrow> oid \<Rightarrow> vendor_status_body \<Rightarrow> store
     \<Rightarrow> booking response \<times> store" where
  "vendorUpdateStatus e u profile bid body db =
     (if role u \<notin> set [''vendor''] then (Err 403 ''Access denied'', db)
      else case profile of
        None \<Rightarrow> (Err 404 ''Vendor profile not found.'', db)
      | Some vs \<Rightarrow>
          if vs \<noteq> ''verified'' then
            (Err 403 (''Access Forbidden. Vendor not verified (Status: '' @ vs @ '')''), db)
          else if v_status body \<notin> set vendorRouteStatuses then
            (Err 400 (''Invalid status update. Allowed statuses are: ''
                      @ ''confirmed, in-progress, verification-pending, cancelled.''), db)
          else (case db bid of
            None \<Rightarrow> (Err 404 ''Booking not found.'', db)
          | Some b \<Rightarrow>
              (let b1 = vendorApply e body b
               in (Ok b1, db(bid \<mapsto> b1)))))"

section \<open>Reading a handler's outcome\<close>

fun is_ok :: "'a response \<Rightarrow> bool" where
  "is_ok (Ok _) = True"
| "is_ok (Err _ _) = False"

text \<open>
  The persisted document after a handler has run, field by field: \<open>None\<close> when the
  collection holds no booking under the identifier.
\<close>

definition statusAfter :: "'a response \<times> store \<Rightarrow> oid \<Rightarrow> string option" where
  "statusAfter r bid = map_option status (snd r bid)"

definition otpAfter :: "'a response \<times> store \<Rightarrow> oid \<Rightarrow> string option option" where
  "otpAfter r bid = map_option completionOtp (snd r bid)"

definition expiresAfter :: "'a response \<times> store \<Rightarrow> oid \<Rightarrow> date option option" where
  "expiresAfter r bid = map_option completionOtpExpires (snd r bid)"

definition paymentAfter :: "'a response \<times> store \<Rightarrow> oid \<Rightarrow> payment option" where
  "paymentAfter r bid = map_option payment (snd r bid)"

definition payStatus :: "booking \<Rightarrow> string" where
  "payStatus b = p_status (payment b)"

definition payStatusAfter :: "'a response \<times> store \<Rightarrow> oid \<Rightarrow> string option" where
  "payStatusAfter r bid = map_option payStatus (snd r bid)"

definition timelineAfter :: "'a response \<times> store \<Rightarrow> oid \<Rightarrow> entry list option" where
  "timelineAfter r bid = map_option timeline (snd r bid)"

definition disputeAfter :: "'a response \<times> store \<Rightarrow> oid \<Rightarrow> dispute option" where
  "disputeAfter r bid = map_option dispute (snd r bid)"

definition ratingAfter :: "'a response \<times> store \<Rightarrow> oid \<Rightarrow> rating option" where
  "ratingAfter r bid = map_option rating (snd r bid)"

text \<open>A response with the expiry of its document blanked: what a handler answers, up to
  \<^verbatim>\<open>completionOtpExpires\<close>.\<close>

fun dropExpires :: "booking response \<Rightarrow> booking response" where
  "dropExpires (Err c m) = Err c m"
| "dropExpires (Ok b) = Ok (b\<lparr>completionOtpExpires := None\<rparr>)"

section \<open>The orders the specification speaks of\<close>

text \<open>Everything reachable from the statuses \<open>xs\<close> in at most \<open>n\<close> edges of \<open>es\<close>.\<close>

fun successors :: "('a \<times> 'a) list \<Rightarrow> 'a \<Rightarrow> 'a list" where
  "successors es x = map snd (filter (\<lambda>p. fst p = x) es)"

fun reach :: "('a \<times> 'a) list \<Rightarrow> nat \<Rightarrow> 'a list \<Rightarrow> 'a list" where
  "reach es 0 xs = xs"
| "reach es (Suc n) xs = reach es n (remdups (xs @ concat (map (successors es) xs)))"

text \<open>
  The state machine in the specification's words: the chain
  pending, confirmed, in-progress, verification-pending, completed; the side branches to
  cancelled and to rejected, read as widely as the words allow (from every status before
  completion, and to cancelled from reported); reported from in-progress,
  verification-pending and completed, and from reported back to completed or cancelled.
  A status is reachable from another along any number of these edges (eight statuses, so
  eight rounds close the search).
\<close>

definition specEdges :: "(string \<times> string) list" where
  "specEdges =
     [(''pending'', ''confirmed''), (''confirmed'', ''in-progress''),
      (''in-progress'', ''verification-pending''), (''verification-pending'', ''completed''),
      (''pending'', ''cancelled''), (''confirmed'', ''cancelled''),
      (''in-progress'', ''cancelled''), (''verification-pending'', ''cancelled''),
      (''pending'', ''rejected''), (''confirmed'', ''rejected''),
      (''in-progress'', ''rejected''), (''verification-pending'', ''rejected''),
      (''in-progress'', ''reported''), (''verification-pending'', ''reported''),
      (''completed'', ''reported''),
      (''reported'', ''completed''), (''reported'', ''cancelled'')]"

definition specReachable :: "string \<Rightarrow> string \<Rightarrow> bool" where
  "specReachable a b = (b \<in> set (reach specEdges 8 [a]))"

text \<open>
  The payment order in the specification's words: pending, paid_to_platform,
  payout_pending, paid_to_vendor, with the refund branch refund_pending, refunded leaving
  the chain after paid_to_platform. A write moves the payment status backward when the
  new value lies strictly before the old one along these edges.
\<close>

definition paymentEdges :: "(string \<times> string) list" where
  "paymentEdges =
     [(''pending'', ''paid_to_platform''), (''paid_to_platform'', ''payout_pending''),
      (''payout_pending'', ''paid_to_vendor''), (''paid_to_platform'', ''refund_pending''),
      (''refund_pending'', ''refunded'')]"

definition movesBackward :: "string \<Rightarrow> string \<Rightarrow> bool" where
  "movesBackward old new = (new \<noteq> old \<and> old \<in> set (reach paymentEdges 6 [new]))"

section \<open>Sample documents and requests\<close>

definition demoEnv :: env where
  "demoEnv = \<lparr>now = 1000000, otp_draw = 654321, accounts = {1, 2, 3}\<rparr>"

text \<open>The same moment once the account of customer 1 has been deleted.\<close>

definition demoEnvGone :: env where
  "demoEnvGone = \<lparr>now = 1000000, otp_draw = 654321, accounts = {2, 3}\<rparr>"

definition demoCustomer :: user where
  "demoCustomer = \<lparr>uid = 1, role = ''customer''\<rparr>"

definition demoVendor :: user where
  "demoVendor = \<lparr>uid = 2, role = ''vendor''\<rparr>"

definition demoAdmin :: user where
  "demoAdmin = \<lparr>uid = 3, role = ''admin''\<rparr>"

definition demoPayment :: payment where
  "demoPayment = \<lparr>p_status = ''paid_to_platform'', transactionId = None, payoutId = None,
     paidAt = Some 5, payoutAt = None, p_notes = None\<rparr>"

text \<open>The dispute of a booking on which none was ever raised: every leaf absent.\<close>

definition noDispute :: dispute where
  "noDispute = \<lparr>raisedBy = None, reason = None, description = None, d_status = None,
     createdAt = None, resolution = None, resolvedBy = None, resolvedAt = None\<rparr>"

text \<open>
  A booking awaiting verification, its code's expiry long past at the clock of the
  sample environment; no notes, no rating, no dispute.
\<close>

definition demoBooking :: booking where
  "demoBooking = \<lparr>customer = 1, vendor_user = Some 2, status = ''verification-pending'',
     payment = demoPayment,
     b_notes = \<lparr>customerNotes = None, vendorNotes = None\<rparr>,
     rating = \<lparr>score = None, review = None, r_date = None\<rparr>,
     completionOtp = Some ''123456'', completionOtpExpires = Some 600000,
     dispute = noDispute, timeline = []\<rparr>"

definition demoDb :: store where
  "demoDb = Map.empty(7 \<mapsto> demoBooking)"

text \<open>
  The same booking made by an administrator on behalf of the account that is also the
  vendor's user: customer and vendor are one account.
\<close>

definition demoSelfBooked :: booking where
  "demoSelfBooked = demoBooking\<lparr>customer := 2\<rparr>"

definition completeBody :: "string option \<Rightarrow> status_body" where
  "completeBody otp = \<lparr>req_status = ''completed'', req_notes = None, req_otp = otp\<rparr>"

definition setBody :: "string \<Rightarrow> status_body" where
  "setBody s = \<lparr>req_status = s, req_notes = None, req_otp = None\<rparr>"

text \<open>The same booking once completed through the code: code cleared, payout pending.\<close>

definition demoCompleted :: booking where
  "demoCompleted = demoBooking\<lparr>status := ''completed'', completionOtp := None,
     payment := demoPayment\<lparr>p_status := ''payout_pending''\<rparr>\<rparr>"

text \<open>A completed booking whose dispute an administrator has already resolved.\<close>

definition demoResolved :: booking where
  "demoResolved = demoCompleted\<lparr>dispute := \<lparr>raisedBy = Some 1, reason = Some ''quality'',
     description = Some ''Work was not finished'', d_status = Some ''resolved'',
     createdAt = Some 700000, resolution = Some ''Work accepted'', resolvedBy = Some 3,
     resolvedAt = Some 900000\<rparr>\<rparr>"

text \<open>
  A reported booking whose payout the settlement outside these routes has already made:
  completed, paid to the vendor, then disputed by the customer.
\<close>

definition demoSettled :: booking where
  "demoSettled = demoCompleted\<lparr>status := ''reported'',
     payment := demoPayment\<lparr>p_status := ''paid_to_vendor''\<rparr>,
     dispute := \<lparr>raisedBy = Some 1, reason = Some ''quality'',
       description = Some ''Work was not finished'', d_status = Some ''open'',
       createdAt = Some 700000, resolution = None, resolvedBy = None, resolvedAt = None\<rparr>\<rparr>"

definition demoDisputeBody :: dispute_body where
  "demoDisputeBody = \<lparr>req_reason = Some ''quality'',
     req_description = Some ''Work was not finished''\<rparr>"

definition demoResolveBody :: "string \<Rightarrow> resolve_body" where
  "demoResolveBody fin = \<lparr>req_resolution = Some ''Reviewed by support'',
     req_finalStatus = Some fin\<rparr>"

section \<open>Facts about the handlers\<close>

lemma dec_nonempty: "dec n \<noteq> []"
  by (subst dec.simps) simp

lemma truthy_Some_iff: "truthy x \<longleftrightarrow> (\<exists>s. x = Some s \<and> s \<noteq> [])"
  by (cases x) simp_all

lemma or_else_truthy: "truthy x \<Longrightarrow> Some (or_else x d) = x"
  by (cases x) simp_all

lemma setNotes_fields:
  "customer (setNotes u body b) = customer b"
  "vendor_user (setNotes u body b) = vendor_user b"
  "status (setNotes u body b) = status b"
  "payment (setNotes u body b) = payment b"
  "rating (setNotes u body b) = rating b"
  "completionOtp (setNotes u body b) = completionOtp b"
  "completionOtpExpires (setNotes u body b) = completionOtpExpires b"
  "dispute (setNotes u body b) = dispute b"
  "timeline (setNotes u body b) = timeline b"
  by (simp_all add: setNotes_def Let_def)

lemma applyStatus_fields:
  "customer (applyStatus e u body b) = customer b"
  "vendor_user (applyStatus e u body b) = vendor_user b"
  "status (applyStatus e u body b) = req_status body"
  "payment (applyStatus e u body b) = payment b"
  "rating (applyStatus e u body b) = rating b"
  "dispute (applyStatus e u body b) = dispute b"
  "timeline (applyStatus e u body b) = timeline b @ [statusEntry e u body]"
  "completionOtp (applyStatus e u body b) =
     (if req_status body = ''verification-pending'' then Some (dec (otp_draw e))
      else completionOtp b)"
  "completionOtpExpires (applyStatus e u body b) =
     (if req_status body = ''verification-pending'' then Some (now e + 600000)
      else completionOtpExpires b)"
  by (simp_all add: applyStatus_def Let_def setNotes_fields generateOtp_def)

lemma consumeOtp_fields:
  "customer (consumeOtp b) = customer b"
  "vendor_user (consumeOtp b) = vendor_user b"
  "status (consumeOtp b) = status b"
  "payment (consumeOtp b) = (payment b)\<lparr>p_status := ''payout_pending''\<rparr>"
  "rating (consumeOtp b) = rating b"
  "dispute (consumeOtp b) = dispute b"
  "timeline (consumeOtp b) = timeline b"
  "completionOtp (consumeOtp b) = None"
  "completionOtpExpires (consumeOtp b) = completionOtpExpires b"
  by (simp_all add: consumeOtp_def)

lemma otpVerification_Ok:
  "otpVerification v a body b = Ok b1 \<Longrightarrow>
   b1 = (if req_status body = ''completed'' \<and> status b = ''verification-pending''
         then consumeOtp b else b)"
  by (auto simp: otpVerification_def split: if_splits)

lemma roleValidation_Some:
  "roleValidation c v body b = Some r \<Longrightarrow> \<not> is_ok r"
  by (auto simp: roleValidation_def split: if_splits)

lemma changeStatus_fail_frame:
  "\<not> is_ok (fst (changeStatus e u bid body db)) \<Longrightarrow>
   snd (changeStatus e u bid body db) = db"
  by (auto simp: changeStatus_def Let_def split: option.splits response.splits if_splits)

lemma changeStatus_ok_result:
  assumes "db bid = Some b" and "fst (changeStatus e u bid body db) = Ok b'"
  shows "b' = applyStatus e u body
                (if req_status body = ''completed'' \<and> status b = ''verification-pending''
                 then consumeOtp b else b)
         \<and> snd (changeStatus e u bid body db) = db(bid \<mapsto> b')"
proof (cases "otpVerification (vendor_user b = Some (uid u)) (role u = ''admin'') body b")
  case (Err c m)
  with assms show ?thesis
    by (auto simp add: changeStatus_def Let_def split: if_splits)
next
  case (Ok b1)
  then have b1: "b1 = (if req_status body = ''completed'' \<and> status b = ''verification-pending''
                       then consumeOtp b else b)"
    by (rule otpVerification_Ok)
  show ?thesis
  proof (cases "roleValidation (customer b = uid u) (vendor_user b = Some (uid u)) body b1")
    case None
    with assms Ok show ?thesis
      unfolding b1 by (auto simp add: changeStatus_def Let_def split: if_splits)
  next
    case (Some r)
    then have "\<not> is_ok r"
      by (rule roleValidation_Some)
    with assms Ok Some show ?thesis
      by (auto simp add: changeStatus_def Let_def split: if_splits)
  qed
qed

lemma changeStatus_persist:
  assumes "db bid = Some b" and "is_ok (fst (changeStatus e u bid body db))"
  shows "snd (changeStatus e u bid body db) bid =
         Some (applyStatus e u body
                (if req_status body = ''completed'' \<and> status b = ''verification-pending''
                 then consumeOtp b else b))"
proof -
  from assms(2) obtain b' where "fst (changeStatus e u bid body db) = Ok b'"
    by (cases "fst (changeStatus e u bid body db)") simp_all
  from changeStatus_ok_result [OF assms(1) this] show ?thesis
    by simp
qed

lemma changeStatus_ok_iff:
  assumes "db bid = Some b"
  shows "is_ok (fst (changeStatus e u bid body db)) \<longleftrightarrow>
     req_status body \<in> set validStatuses
   \<and> (customer b = uid u \<or> vendor_user b = Some (uid u) \<or> role u = ''admin'')
   \<and> (req_status body = ''completed'' \<and> status b = ''verification-pending'' \<longrightarrow>
         (if vendor_user b = Some (uid u)
          then truthy (req_otp body) \<and> completionOtp b = req_otp body
          else role u = ''admin''))
   \<and> (customer b = uid u \<longrightarrow> req_status body = ''cancelled''
         \<and> status b \<notin> {''completed'', ''cancelled'', ''rejected''})
   \<and> (vendor_user b = Some (uid u) \<longrightarrow> req_status body \<noteq> ''pending''
         \<and> (req_status body = ''completed'' \<longrightarrow> status b = ''verification-pending''))"
  using assms
  by (simp add: changeStatus_def Let_def roleValidation_def otpVerification_def
      validStatuses_def allowedVendorStatuses_def consumeOtp_def
      split: option.splits response.splits)

lemma raiseDispute_fail_frame:
  "\<not> is_ok (fst (raiseDispute e u bid body db)) \<Longrightarrow> snd (raiseDispute e u bid body db) = db"
  by (auto simp: raiseDispute_def Let_def split: option.splits if_splits)

lemma raiseDispute_persist:
  assumes "db bid = Some b" and "is_ok (fst (raiseDispute e u bid body db))"
  shows "snd (raiseDispute e u bid body db) bid =
           Some (openDispute e u (or_else (req_reason body) [])
                   (or_else (req_description body) []) b)"
  using assms
  by (auto simp add: raiseDispute_def Let_def split: if_splits)

lemma resolveDispute_store:
  assumes "db bid = Some b"
  shows "snd (resolveDispute e u bid body db) bid = Some b
       \<or> (truthy (req_finalStatus body)
          \<and> or_else (req_finalStatus body) [] \<in> {''completed'', ''cancelled''}
          \<and> snd (resolveDispute e u bid body db) bid =
              Some (closeDispute e u (or_else (req_resolution body) [])
                      (or_else (req_finalStatus body) []) b))"
  using assms
  by (simp add: resolveDispute_def Let_def)

lemma resolveDispute_persist:
  assumes "db bid = Some b" and "is_ok (fst (resolveDispute e u bid body db))"
  shows "truthy (req_finalStatus body)
         \<and> or_else (req_finalStatus body) [] \<in> {''completed'', ''cancelled''}
         \<and> snd (resolveDispute e u bid body db) bid =
             Some (closeDispute e u (or_else (req_resolution body) [])
                     (or_else (req_finalStatus body) []) b)"
  using assms
  by (auto simp add: resolveDispute_def Let_def split: if_splits)

lemma submitReview_fail_frame:
  "\<not> is_ok (fst (submitReview e u bid body db)) \<Longrightarrow> snd (submitReview e u bid body db) = db"
  by (auto simp: submitReview_def Let_def split: option.splits if_splits)

lemma submitReview_persist:
  assumes "db bid = Some b" and "is_ok (fst (submitReview e u bid body db))"
  shows "snd (submitReview e u bid body db) bid = Some (setRating e body b)"
  using assms
  by (auto simp add: submitReview_def Let_def split: if_splits)

lemma vendorUpdateStatus_fail_frame:
  "\<not> is_ok (fst (vendorUpdateStatus e u p bid body db)) \<Longrightarrow>
   snd (vendorUpdateStatus e u p bid body db) = db"
  by (auto simp: vendorUpdateStatus_def Let_def split: option.splits if_splits)

lemma vendorUpdateStatus_persist:
  assumes "db bid = Some b" and "is_ok (fst (vendorUpdateStatus e u p bid body db))"
  shows "snd (vendorUpdateStatus e u p bid body db) bid = Some (vendorApply e body b)"
  using assms
  by (cases p) (auto simp add: vendorUpdateStatus_def Let_def split: if_splits)

lemma getOtp_persist:
  assumes "db bid = Some b"
  shows "snd (getOtp e u bid db) bid =
           Some (if is_ok (fst (getOtp e u bid db)) \<and> otpStale e b then regenerateOtp e b else b)"
  using assms
  by (auto simp add: getOtp_def Let_def)

lemma openDispute_fields:
  "status (openDispute e u r d b) = ''reported''"
  "payment (openDispute e u r d b) = payment b"
  "rating (openDispute e u r d b) = rating b"
  "completionOtp (openDispute e u r d b) = completionOtp b"
  "completionOtpExpires (openDispute e u r d b) = completionOtpExpires b"
  by (simp_all add: openDispute_def)

lemma closeDispute_fields:
  "status (closeDispute e u r f b) = f"
  "payment (closeDispute e u r f b) = derivePayment f (payment b)"
  "rating (closeDispute e u r f b) = rating b"
  "completionOtp (closeDispute e u r f b) = completionOtp b"
  "completionOtpExpires (closeDispute e u r f b) = completionOtpExpires b"
  by (simp_all add: closeDispute_def)

lemma vendorApply_fields:
  "status (vendorApply e body b) = v_status body"
  "payment (vendorApply e body b) = payment b"
  "rating (vendorApply e body b) = rating b"
  "completionOtp (vendorApply e body b) = completionOtp b"
  "completionOtpExpires (vendorApply e body b) = completionOtpExpires b"
  by (simp_all add: vendorApply_def Let_def)

lemma setRating_fields:
  "status (setRating e body b) = status b"
  "payment (setRating e body b) = payment b"
  "completionOtp (setRating e body b) = completionOtp b"
  "completionOtpExpires (setRating e body b) = completionOtpExpires b"
  by (simp_all add: setRating_def)

lemma regenerateOtp_fields:
  "status (regenerateOtp e b) = status b"
  "payment (regenerateOtp e b) = payment b"
  "completionOtp (regenerateOtp e b) = Some (dec (otp_draw e))"
  "completionOtpExpires (regenerateOtp e b) = Some (now e + 600000)"
  by (simp_all add: regenerateOtp_def)

text \<open>
  The status handler answers the same, up to the expiry field of the document it returns,
  whatever expiry the stored booking carries.
\<close>

lemma otpVerification_expiry:
  "otpVerification v a body (b\<lparr>completionOtpExpires := y\<rparr>)
     = (case otpVerification v a body b of
          Err c m \<Rightarrow> Err c m
        | Ok b1 \<Rightarrow> Ok (b1\<lparr>completionOtpExpires := y\<rparr>))"
  by (simp add: otpVerification_def consumeOtp_def)

lemma roleValidation_expiry:
  "roleValidation c v body (b\<lparr>completionOtpExpires := y\<rparr>) = roleValidation c v body b"
  by (simp add: roleValidation_def)

lemma applyStatus_expiry:
  "(applyStatus e u body (b\<lparr>completionOtpExpires := y\<rparr>))\<lparr>completionOtpExpires := None\<rparr>
     = (applyStatus e u body b)\<lparr>completionOtpExpires := None\<rparr>"
  by (simp add: applyStatus_def generateOtp_def setNotes_def Let_def split: option.splits)

lemma changeStatus_ignores_expiry:
  assumes "db bid = Some b"
  shows "dropExpires (fst (changeStatus e u bid body (db(bid \<mapsto> b\<lparr>completionOtpExpires := y\<rparr>))))
       = dropExpires (fst (changeStatus e u bid body db))"
proof -
  define v where "v = (vendor_user b = Some (uid u))"
  define a where "a = (role u = ''admin'')"
  define c where "c = (customer b = uid u)"
  define inner where "inner = (\<lambda>b0. case otpVerification v a body b0 of
        Err k m \<Rightarrow> Err k m
      | Ok b1 \<Rightarrow> (case roleValidation c v body b1 of
                     Some r \<Rightarrow> r
                   | None \<Rightarrow> Ok (applyStatus e u body b1)))"
  have shape: "fst (changeStatus e u bid body (db(bid \<mapsto> b0)))
      = (if req_status body \<notin> set validStatuses
         then Err 400 (''Invalid status provided: '' @ req_status body @ ''.'')
         else if \<not> c \<and> \<not> v \<and> \<not> a
         then Err 403 ''Access denied. You cannot update this booking.''
         else inner b0)"
    if "vendor_user b0 = vendor_user b" "customer b0 = customer b" for b0
    using that
    by (simp add: changeStatus_def Let_def v_def a_def c_def inner_def
        split: response.splits option.splits)
  have same: "dropExpires (inner (b\<lparr>completionOtpExpires := y\<rparr>)) = dropExpires (inner b)"
  proof (cases "otpVerification v a body b")
    case (Err k m)
    then show ?thesis
      by (simp add: inner_def otpVerification_expiry)
  next
    case (Ok b1)
    show ?thesis
    proof (cases "roleValidation c v body b1")
      case None
      with Ok show ?thesis
        by (simp add: inner_def otpVerification_expiry roleValidation_expiry
            applyStatus_expiry)
    next
      case (Some r)
      with Ok show ?thesis
        by (simp add: inner_def otpVerification_expiry roleValidation_expiry)
    qed
  qed
  have "db(bid \<mapsto> b) = db"
    using assms by (simp add: fun_upd_idem)
  with shape [of b] have orig: "fst (changeStatus e u bid body db)
      = (if req_status body \<notin> set validStatuses
         then Err 400 (''Invalid status provided: '' @ req_status body @ ''.'')
         else if \<not> c \<and> \<not> v \<and> \<not> a
         then Err 403 ''Access denied. You cannot update this booking.''
         else inner b)"
    by simp
  show ?thesis
    unfolding orig shape [of "b\<lparr>completionOtpExpires := y\<rparr>", simplified]
    by (simp add: same)
qed

text \<open>What lies at or after the two derived payment statuses in the payment order.\<close>

lemma reach_payout_pending:
  "reach paymentEdges 6 [''payout_pending''] = [''payout_pending'', ''paid_to_vendor'']"
  by (simp add: paymentEdges_def eval_nat_numeral)

lemma reach_refund_pending:
  "reach paymentEdges 6 [''refund_pending''] = [''refund_pending'', ''refunded'']"
  by (simp add: paymentEdges_def eval_nat_numeral)

lemma payStatusAfter_persisted:
  "snd r bid = Some b' \<Longrightarrow> payStatusAfter r bid = Some (payStatus b')"
  by (simp add: payStatusAfter_def)

section \<open>The claims\<close>

subsection \<open>C1: which status requests are accepted\<close>

text \<open>
  C1, as the code has it. A status request on an existing booking succeeds exactly when
  the target is one of the seven valid statuses, the caller is the booking's customer, its
  vendor or an administrator, the completion of a booking awaiting verification comes from
  the vendor with the stored code or else from an administrator, a customer asks for
  \<^verbatim>\<open>cancelled\<close> on a booking that is not completed, cancelled or rejected, and a vendor
  asks for a status other than \<^verbatim>\<open>pending\<close>, and for \<^verbatim>\<open>completed\<close> only on a booking
  awaiting verification. Beyond these the current status is not consulted. A request that
  fails returns the collection as it was; one that succeeds persists the target status.
  The vendor route succeeds for a verified vendor and any of its four statuses, whatever
  the booking's current status, with the same frame.
\<close>

theorem C1_status_requests_accepted:
  assumes "db bid = Some b"
  shows "(is_ok (fst (changeStatus e u bid body db)) \<longleftrightarrow>
            req_status body \<in> set validStatuses
          \<and> (customer b = uid u \<or> vendor_user b = Some (uid u) \<or> role u = ''admin'')
          \<and> (req_status body = ''completed'' \<and> status b = ''verification-pending'' \<longrightarrow>
                (if vendor_user b = Some (uid u)
                 then truthy (req_otp body) \<and> completionOtp b = req_otp body
                 else role u = ''admin''))
          \<and> (customer b = uid u \<longrightarrow> req_status body = ''cancelled''
                \<and> status b \<notin> {''completed'', ''cancelled'', ''rejected''})
          \<and> (vendor_user b = Some (uid u) \<longrightarrow> req_status body \<noteq> ''pending''
                \<and> (req_status body = ''completed'' \<longrightarrow> status b = ''verification-pending'')))
       \<and> (\<not> is_ok (fst (changeStatus e u bid body db)) \<longrightarrow>
            snd (changeStatus e u bid body db) = db)
       \<and> (is_ok (fst (changeStatus e u bid body db)) \<longrightarrow>
            statusAfter (changeStatus e u bid body db) bid = Some (req_status body))
       \<and> (is_ok (fst (vendorUpdateStatus e u p bid vbody db)) \<longleftrightarrow>
            role u = ''vendor'' \<and> p = Some ''verified''
            \<and> v_status vbody \<in> set vendorRouteStatuses)
       \<and> (\<not> is_ok (fst (vendorUpdateStatus e u p bid vbody db)) \<longrightarrow>
            snd (vendorUpdateStatus e u p bid vbody db) = db)
       \<and> (is_ok (fst (vendorUpdateStatus e u p bid vbody db)) \<longrightarrow>
            statusAfter (vendorUpdateStatus e u p bid vbody db) bid = Some (v_status vbody))"
proof -
  have s3: "is_ok (fst (changeStatus e u bid body db)) \<longrightarrow>
            statusAfter (changeStatus e u bid body db) bid = Some (req_status body)"
    using changeStatus_persist [where db=db and bid=bid and b=b and e=e and u=u and body=body,
                                OF assms]
    by (simp add: statusAfter_def applyStatus_fields)
  have v1: "is_ok (fst (vendorUpdateStatus e u p bid vbody db)) \<longleftrightarrow>
            role u = ''vendor'' \<and> p = Some ''verified''
            \<and> v_status vbody \<in> set vendorRouteStatuses"
    using assms by (cases p) (simp_all add: vendorUpdateStatus_def Let_def)
  have v3: "is_ok (fst (vendorUpdateStatus e u p bid vbody db)) \<longrightarrow>
            statusAfter (vendorUpdateStatus e u p bid vbody db) bid = Some (v_status vbody)"
    using vendorUpdateStatus_persist
            [where db=db and bid=bid and b=b and e=e and u=u and body=vbody and p=p, OF assms]
    by (simp add: statusAfter_def vendorApply_fields)
  from changeStatus_ok_iff [where db=db and bid=bid and b=b and e=e and u=u and body=body,
                            OF assms]
       changeStatus_fail_frame [of e u bid body db] s3 v1
       vendorUpdateStatus_fail_frame [of e u p bid vbody db] v3
  show ?thesis
    by blast
qed

theorem C1_witness:
  "\<not> is_ok (fst (changeStatus demoEnv demoCustomer 7 (setBody ''confirmed'') demoDb))
   \<and> snd (changeStatus demoEnv demoCustomer 7 (setBody ''confirmed'') demoDb) = demoDb
   \<and> is_ok (fst (changeStatus demoEnv demoAdmin 7 (setBody ''cancelled'') demoDb))
   \<and> statusAfter (changeStatus demoEnv demoAdmin 7 (setBody ''cancelled'') demoDb) 7
       = Some ''cancelled''"
proof -
  have h: "demoDb 7 = Some demoBooking"
    by (simp add: demoDb_def)
  have f: "customer demoBooking = 1" "vendor_user demoBooking = Some 2"
    "status demoBooking = ''verification-pending''"
    "uid demoCustomer = 1" "role demoCustomer = ''customer''"
    "uid demoAdmin = 3" "role demoAdmin = ''admin''"
    "req_status (setBody s) = s" for s
    by (simp_all add: demoBooking_def demoCustomer_def demoAdmin_def setBody_def)
  from C1_status_requests_accepted
         [of demoDb 7 demoBooking demoEnv demoCustomer "setBody ''confirmed''", OF h]
       C1_status_requests_accepted
         [of demoDb 7 demoBooking demoEnv demoAdmin "setBody ''cancelled''", OF h]
  show ?thesis
    by (simp add: f validStatuses_def)
qed

text \<open>
  C1 as stated fails. From \<^verbatim>\<open>completed\<close> the specification's edges lead to
  \<^verbatim>\<open>reported\<close>, \<^verbatim>\<open>completed\<close> and \<^verbatim>\<open>cancelled\<close> only; yet the vendor of a
  completed booking who asks for \<^verbatim>\<open>confirmed\<close> is answered with success and the
  booking is persisted as \<^verbatim>\<open>confirmed\<close>.
\<close>

theorem C1_counterexample:
  "\<not> specReachable ''completed'' ''confirmed''
   \<and> is_ok (fst (changeStatus demoEnv demoVendor 7 (setBody ''confirmed'')
                   (Map.empty(7 \<mapsto> demoCompleted))))
   \<and> statusAfter (changeStatus demoEnv demoVendor 7 (setBody ''confirmed'')
                     (Map.empty(7 \<mapsto> demoCompleted))) 7 = Some ''confirmed''"
proof -
  have "\<not> specReachable ''completed'' ''confirmed''"
    by (simp add: specReachable_def specEdges_def eval_nat_numeral)
  then show ?thesis
    by (simp add: changeStatus_def validStatuses_def allowedVendorStatuses_def
        otpVerification_def roleValidation_def applyStatus_def generateOtp_def setNotes_def
        statusAfter_def demoCompleted_def demoBooking_def demoVendor_def setBody_def Let_def)
qed

subsection \<open>C2: where the completion code is written\<close>

text \<open>
  C2, as the code has it, for the six handlers that update an existing booking through
  the status machine, the code protocol, disputes and reviews. A successful status request
  for \<^verbatim>\<open>verification-pending\<close> stores a fresh code, which is never empty; a successful
  status request for \<^verbatim>\<open>completed\<close> on a booking awaiting verification clears the code;
  the customer's read replaces a stale code by a fresh one. Every other successful status
  request (a cancellation, an administrator forcing another status), the raising of a
  dispute (which sets the status to \<^verbatim>\<open>reported\<close>), a review and the vendor route (even
  towards \<^verbatim>\<open>verification-pending\<close>) leave the code as it was, and so does the
  resolution of a dispute, whatever it answers.
\<close>

theorem C2_writes_of_the_code:
  assumes "db bid = Some b"
  shows "(is_ok (fst (changeStatus e u bid body db)) \<longrightarrow>
            otpAfter (changeStatus e u bid body db) bid
              = Some (if req_status body = ''verification-pending''
                      then Some (dec (otp_draw e))
                      else if req_status body = ''completed''
                              \<and> status b = ''verification-pending''
                      then None
                      else completionOtp b))
       \<and> dec (otp_draw e) \<noteq> []
       \<and> otpAfter (getOtp e u bid db) bid
           = Some (if is_ok (fst (getOtp e u bid db)) \<and> otpStale e b
                   then Some (dec (otp_draw e)) else completionOtp b)
       \<and> (is_ok (fst (raiseDispute e u bid dbody db)) \<longrightarrow>
            statusAfter (raiseDispute e u bid dbody db) bid = Some ''reported''
            \<and> otpAfter (raiseDispute e u bid dbody db) bid = Some (completionOtp b))
       \<and> otpAfter (resolveDispute e u bid rbody db) bid = Some (completionOtp b)
       \<and> (is_ok (fst (submitReview e u bid sbody db)) \<longrightarrow>
            otpAfter (submitReview e u bid sbody db) bid = Some (completionOtp b))
       \<and> (is_ok (fst (vendorUpdateStatus e u p bid vbody db)) \<longrightarrow>
            statusAfter (vendorUpdateStatus e u p bid vbody db) bid = Some (v_status vbody)
            \<and> otpAfter (vendorUpdateStatus e u p bid vbody db) bid = Some (completionOtp b))"
proof -
  have c: "is_ok (fst (changeStatus e u bid body db)) \<longrightarrow>
            otpAfter (changeStatus e u bid body db) bid
              = Some (if req_status body = ''verification-pending''
                      then Some (dec (otp_draw e))
                      else if req_status body = ''completed''
                              \<and> status b = ''verification-pending''
                      then None
                      else completionOtp b)"
    using changeStatus_persist [where db=db and bid=bid and b=b and e=e and u=u and body=body,
                                OF assms]
    by (simp add: otpAfter_def applyStatus_fields consumeOtp_fields)
  have g: "otpAfter (getOtp e u bid db) bid
           = Some (if is_ok (fst (getOtp e u bid db)) \<and> otpStale e b
                   then Some (dec (otp_draw e)) else completionOtp b)"
    using getOtp_persist [where db=db and bid=bid and b=b and e=e and u=u, OF assms]
    by (simp add: otpAfter_def regenerateOtp_fields)
  have d: "is_ok (fst (raiseDispute e u bid dbody db)) \<longrightarrow>
            statusAfter (raiseDispute e u bid dbody db) bid = Some ''reported''
            \<and> otpAfter (raiseDispute e u bid dbody db) bid = Some (completionOtp b)"
    using raiseDispute_persist [where db=db and bid=bid and b=b and e=e and u=u and body=dbody,
                                OF assms]
    by (simp add: otpAfter_def statusAfter_def openDispute_fields)
  have r: "otpAfter (resolveDispute e u bid rbody db) bid = Some (completionOtp b)"
    using resolveDispute_store [where db=db and bid=bid and b=b and e=e and u=u and body=rbody,
                                OF assms]
    by (auto simp add: otpAfter_def closeDispute_fields)
  have s: "is_ok (fst (submitReview e u bid sbody db)) \<longrightarrow>
            otpAfter (submitReview e u bid sbody db) bid = Some (completionOtp b)"
    using submitReview_persist [where db=db and bid=bid and b=b and e=e and u=u and body=sbody,
                                OF assms]
    by (simp add: otpAfter_def setRating_fields)
  have v: "is_ok (fst (vendorUpdateStatus e u p bid vbody db)) \<longrightarrow>
            statusAfter (vendorUpdateStatus e u p bid vbody db) bid = Some (v_status vbody)
            \<and> otpAfter (vendorUpdateStatus e u p bid vbody db) bid = Some (completionOtp b)"
    using vendorUpdateStatus_persist
            [where db=db and bid=bid and b=b and e=e and u=u and body=vbody and p=p, OF assms]
    by (simp add: otpAfter_def statusAfter_def vendorApply_fields)
  from c g d r s v dec_nonempty [of "otp_draw e"] show ?thesis
    by blast
qed

theorem C2_witness:
  "otpAfter (changeStatus demoEnv demoVendor 7 (completeBody (Some ''123456'')) demoDb) 7
     = Some None
   \<and> otpAfter (changeStatus demoEnv demoAdmin 7 (setBody ''cancelled'') demoDb) 7
     = Some (Some ''123456'')"
proof -
  have h: "demoDb 7 = Some demoBooking"
    by (simp add: demoDb_def)
  have ok1: "is_ok (fst (changeStatus demoEnv demoVendor 7 (completeBody (Some ''123456''))
                          demoDb))"
    by (simp add: changeStatus_ok_iff [where db=demoDb and bid=7 and b=demoBooking, OF h]
        validStatuses_def demoBooking_def demoVendor_def completeBody_def)
  have ok2: "is_ok (fst (changeStatus demoEnv demoAdmin 7 (setBody ''cancelled'') demoDb))"
    by (simp add: changeStatus_ok_iff [where db=demoDb and bid=7 and b=demoBooking, OF h]
        validStatuses_def demoBooking_def demoAdmin_def setBody_def)
  from C2_writes_of_the_code
         [where db=demoDb and bid=7 and b=demoBooking and e=demoEnv and u=demoVendor
            and body="completeBody (Some ''123456'')", OF h]
       C2_writes_of_the_code
         [where db=demoDb and bid=7 and b=demoBooking and e=demoEnv and u=demoAdmin
            and body="setBody ''cancelled''", OF h]
       ok1 ok2
  show ?thesis
    by (simp add: completeBody_def setBody_def demoBooking_def)
qed

text \<open>
  C2 as stated fails: the customer raises a dispute on the sample booking, which awaits
  verification and holds the code 123456; the booking is persisted as \<^verbatim>\<open>reported\<close>
  and still holds that code.
\<close>

theorem C2_counterexample:
  "is_ok (fst (raiseDispute demoEnv demoCustomer 7 demoDisputeBody demoDb))
   \<and> statusAfter (raiseDispute demoEnv demoCustomer 7 demoDisputeBody demoDb) 7
       = Some ''reported''
   \<and> otpAfter (raiseDispute demoEnv demoCustomer 7 demoDisputeBody demoDb) 7
       = Some (Some ''123456'')"
  by (simp add: raiseDispute_def reportableStatuses_def openDispute_def statusAfter_def
      otpAfter_def demoDb_def demoBooking_def demoCustomer_def demoDisputeBody_def
      noDispute_def Let_def)

subsection \<open>C3: the vendor cannot complete without the stored code\<close>

text \<open>
  C3. On a booking awaiting verification, the booking's vendor asking for
  \<^verbatim>\<open>completed\<close> without a code is answered 400 (a code is required), and with a code
  that is not the stored one, byte for byte, is answered 400 (invalid code). In both cases
  the collection is returned as it was, so the persisted booking, its status included, is
  unchanged.
\<close>

theorem C3_vendor_completion_needs_the_code:
  assumes "db bid = Some b"
    and "status b = ''verification-pending''"
    and "vendor_user b = Some (uid u)"
    and "req_status body = ''completed''"
  shows "(\<not> truthy (req_otp body) \<longrightarrow>
            changeStatus e u bid body db
              = (Err 400 ''OTP is required to complete the booking.'', db))
       \<and> (truthy (req_otp body) \<and> req_otp body \<noteq> completionOtp b \<longrightarrow>
            changeStatus e u bid body db = (Err 400 ''Invalid OTP provided.'', db))
       \<and> (\<not> truthy (req_otp body) \<or> req_otp body \<noteq> completionOtp b \<longrightarrow>
            snd (changeStatus e u bid body db) bid = Some b
            \<and> statusAfter (changeStatus e u bid body db) bid = Some ''verification-pending'')"
  using assms
  by (auto simp add: changeStatus_def validStatuses_def otpVerification_def statusAfter_def)

theorem C3_witness:
  "changeStatus demoEnv demoVendor 7 (completeBody None) demoDb
     = (Err 400 ''OTP is required to complete the booking.'', demoDb)
   \<and> changeStatus demoEnv demoVendor 7 (completeBody (Some ''123457'')) demoDb
     = (Err 400 ''Invalid OTP provided.'', demoDb)
   \<and> statusAfter (changeStatus demoEnv demoVendor 7 (completeBody (Some ''123457'')) demoDb) 7
     = Some ''verification-pending''"
proof -
  have h: "demoDb 7 = Some demoBooking" "status demoBooking = ''verification-pending''"
    "vendor_user demoBooking = Some (uid demoVendor)"
    by (simp_all add: demoDb_def demoBooking_def demoVendor_def)
  have c: "req_status (completeBody x) = ''completed''" for x
    by (simp add: completeBody_def)
  have o: "req_otp (completeBody x) = x" for x
    by (simp add: completeBody_def)
  have s: "completionOtp demoBooking = Some ''123456''"
    by (simp add: demoBooking_def)
  from C3_vendor_completion_needs_the_code
         [of demoDb 7 demoBooking demoVendor "completeBody None" demoEnv, OF h c]
       C3_vendor_completion_needs_the_code
         [of demoDb 7 demoBooking demoVendor "completeBody (Some ''123457'')" demoEnv, OF h c]
  show ?thesis
    by (auto simp add: o s)
qed

subsection \<open>C4: completion with the stored code\<close>

text \<open>
  C4, as the code has it. On a booking awaiting verification, the booking's vendor, when
  not also its customer, asking for \<^verbatim>\<open>completed\<close> with the stored code succeeds: the
  code is cleared, the payment status becomes \<^verbatim>\<open>payout_pending\<close> (the rest of the
  payment is kept), the status becomes \<^verbatim>\<open>completed\<close> and exactly one timeline entry,
  of status \<^verbatim>\<open>completed\<close>, is appended. The expiry \<^verbatim>\<open>completionOtpExpires\<close> keeps
  its value: the handler never assigns it on this path.
\<close>

theorem C4_vendor_completion_with_the_code:
  assumes "db bid = Some b"
    and "status b = ''verification-pending''"
    and "vendor_user b = Some (uid u)"
    and "customer b \<noteq> uid u"
    and "req_status body = ''completed''"
    and "truthy (req_otp body)"
    and "req_otp body = completionOtp b"
  shows "is_ok (fst (changeStatus e u bid body db))
       \<and> otpAfter (changeStatus e u bid body db) bid = Some None
       \<and> expiresAfter (changeStatus e u bid body db) bid = Some (completionOtpExpires b)
       \<and> paymentAfter (changeStatus e u bid body db) bid
           = Some ((payment b)\<lparr>p_status := ''payout_pending''\<rparr>)
       \<and> statusAfter (changeStatus e u bid body db) bid = Some ''completed''
       \<and> timelineAfter (changeStatus e u bid body db) bid
           = Some (timeline b @ [statusEntry e u body])
       \<and> t_status (statusEntry e u body) = ''completed''"
proof -
  have ok: "is_ok (fst (changeStatus e u bid body db))"
    using assms by (simp add: changeStatus_ok_iff [where db=db and bid=bid and b=b] validStatuses_def)
  from changeStatus_persist [where db=db and bid=bid and b=b, OF assms(1) ok] assms(2,5) ok show ?thesis
    by (simp add: otpAfter_def expiresAfter_def paymentAfter_def statusAfter_def
        timelineAfter_def applyStatus_fields consumeOtp_fields statusEntry_def)
qed

theorem C4_witness:
  "otpAfter (changeStatus demoEnv demoVendor 7 (completeBody (Some ''123456'')) demoDb) 7
     = Some None
   \<and> statusAfter (changeStatus demoEnv demoVendor 7 (completeBody (Some ''123456'')) demoDb) 7
     = Some ''completed''
   \<and> paymentAfter (changeStatus demoEnv demoVendor 7 (completeBody (Some ''123456'')) demoDb) 7
     = Some (demoPayment\<lparr>p_status := ''payout_pending''\<rparr>)"
proof -
  have h: "demoDb 7 = Some demoBooking" "status demoBooking = ''verification-pending''"
    "vendor_user demoBooking = Some (uid demoVendor)" "customer demoBooking \<noteq> uid demoVendor"
    "req_status (completeBody (Some ''123456'')) = ''completed''"
    "truthy (req_otp (completeBody (Some ''123456'')))"
    "req_otp (completeBody (Some ''123456'')) = completionOtp demoBooking"
    by (simp_all add: demoDb_def demoBooking_def demoVendor_def completeBody_def)
  have p: "payment demoBooking = demoPayment"
    by (simp add: demoBooking_def)
  from C4_vendor_completion_with_the_code
         [of demoDb 7 demoBooking demoVendor "completeBody (Some ''123456'')" demoEnv, OF h]
  show ?thesis
    by (simp add: p)
qed

text \<open>
  C4 as stated fails twice. After the vendor's successful completion of the sample booking
  the persisted \<^verbatim>\<open>completionOtpExpires\<close> is still the old expiry, not empty. And on the
  booking whose customer is the vendor's own account, the vendor's request with the stored
  code does not succeed: the customer rule answers 403 and nothing is written.
\<close>

theorem C4_counterexample:
  "is_ok (fst (changeStatus demoEnv demoVendor 7 (completeBody (Some ''123456'')) demoDb))
   \<and> expiresAfter (changeStatus demoEnv demoVendor 7 (completeBody (Some ''123456'')) demoDb) 7
       = Some (Some 600000)
   \<and> expiresAfter (changeStatus demoEnv demoVendor 7 (completeBody (Some ''123456'')) demoDb) 7
       \<noteq> Some None
   \<and> vendor_user demoSelfBooked = Some (uid demoVendor)
   \<and> completionOtp demoSelfBooked = req_otp (completeBody (Some ''123456''))
   \<and> \<not> is_ok (fst (changeStatus demoEnv demoVendor 7 (completeBody (Some ''123456''))
                       (Map.empty(7 \<mapsto> demoSelfBooked))))"
  by (simp add: changeStatus_def validStatuses_def allowedVendorStatuses_def
      otpVerification_def roleValidation_def applyStatus_def generateOtp_def setNotes_def
      consumeOtp_def expiresAfter_def demoDb_def demoBooking_def demoSelfBooked_def
      demoVendor_def completeBody_def Let_def)

subsection \<open>C5: resolving a dispute\<close>

text \<open>
  C5, as the code has it. On an existing booking, an administrator's resolution with a
  resolution text and a final status of \<^verbatim>\<open>completed\<close> or \<^verbatim>\<open>cancelled\<close> is never
  refused as not found or as in the wrong state, whatever the dispute of the booking
  holds: already resolved, open, or never raised. The dispute is written as resolved with
  the new resolution, the resolver and the clock, its other leaves kept; the booking
  takes the final status and the derived payment status; exactly one timeline entry is
  appended, of status \<^verbatim>\<open>resolved\<close>, whose note names the final status and the
  resolution. The answer is 200 with the written booking when the account of the booking's
  customer exists, and 500 after the same write when it does not. The 404 is answered
  when no booking has the identifier, and then nothing is written.
\<close>

theorem C5_resolution_of_any_dispute:
  assumes "role u = ''admin''"
    and "req_resolution body = Some res" and "res \<noteq> []"
    and "req_finalStatus body = Some fin" and "fin \<in> {''completed'', ''cancelled''}"
    and "db bid = Some b"
  shows "(customer b \<in> accounts e \<longrightarrow>
            fst (resolveDispute e u bid body db) = Ok (closeDispute e u res fin b))
       \<and> (customer b \<notin> accounts e \<longrightarrow>
            fst (resolveDispute e u bid body db)
              = Err 500 ''Server error while resolving dispute.'')
       \<and> snd (resolveDispute e u bid body db) = db(bid \<mapsto> closeDispute e u res fin b)
       \<and> statusAfter (resolveDispute e u bid body db) bid = Some fin
       \<and> disputeAfter (resolveDispute e u bid body db) bid
           = Some ((dispute b)\<lparr>d_status := Some ''resolved'', resolution := Some res,
                                resolvedBy := Some (uid u), resolvedAt := Some (now e)\<rparr>)
       \<and> payStatusAfter (resolveDispute e u bid body db) bid
           = Some (if fin = ''completed'' then ''payout_pending'' else ''refund_pending'')
       \<and> timelineAfter (resolveDispute e u bid body db) bid
           = Some (timeline b @
               [\<lparr>t_status = ''resolved'',
                 t_note = ''Admin resolved the dispute. Final status set to ''
                   @ [CHR 0x27] @ fin @ [CHR 0x27] @ ''. Resolution: ''
                   @ [CHR 0x22] @ res @ [CHR 0x22],
                 timestamp = now e\<rparr>])
       \<and> resolveDispute e u bid body (db(bid := None))
           = (Err 404 ''Disputed booking not found.'', db(bid := None))"
proof -
  have per: "snd (resolveDispute e u bid body db) = db(bid \<mapsto> closeDispute e u res fin b)"
    using assms by (auto simp add: resolveDispute_def Let_def)
  have a: "customer b \<in> accounts e \<longrightarrow>
            fst (resolveDispute e u bid body db) = Ok (closeDispute e u res fin b)"
    using assms by (auto simp add: resolveDispute_def Let_def)
  have g: "customer b \<notin> accounts e \<longrightarrow>
            fst (resolveDispute e u bid body db)
              = Err 500 ''Server error while resolving dispute.''"
    using assms by (auto simp add: resolveDispute_def Let_def)
  have n: "resolveDispute e u bid body (db(bid := None))
           = (Err 404 ''Disputed booking not found.'', db(bid := None))"
    using assms by (auto simp add: resolveDispute_def Let_def)
  have f: "statusAfter (resolveDispute e u bid body db) bid = Some fin"
    "disputeAfter (resolveDispute e u bid body db) bid
       = Some ((dispute b)\<lparr>d_status := Some ''resolved'', resolution := Some res,
                            resolvedBy := Some (uid u), resolvedAt := Some (now e)\<rparr>)"
    "timelineAfter (resolveDispute e u bid body db) bid
       = Some (timeline b @
           [\<lparr>t_status = ''resolved'',
             t_note = ''Admin resolved the dispute. Final status set to ''
               @ [CHR 0x27] @ fin @ [CHR 0x27] @ ''. Resolution: ''
               @ [CHR 0x22] @ res @ [CHR 0x22],
             timestamp = now e\<rparr>])"
    unfolding per statusAfter_def disputeAfter_def timelineAfter_def
    by (simp_all add: closeDispute_def)
  have p: "payStatusAfter (resolveDispute e u bid body db) bid
           = Some (if fin = ''completed'' then ''payout_pending'' else ''refund_pending'')"
    unfolding per payStatusAfter_def using assms(5)
    by (auto simp add: payStatus_def closeDispute_def derivePayment_def)
  from a g per f p n show ?thesis
    by blast
qed

theorem C5_witness:
  "is_ok (fst (resolveDispute demoEnv demoAdmin 7 (demoResolveBody ''completed'')
                 (Map.empty(7 \<mapsto> demoSettled))))
   \<and> statusAfter (resolveDispute demoEnv demoAdmin 7 (demoResolveBody ''completed'')
                     (Map.empty(7 \<mapsto> demoSettled))) 7 = Some ''completed''
   \<and> dispute demoBooking = noDispute
   \<and> fst (resolveDispute demoEnvGone demoAdmin 7 (demoResolveBody ''cancelled'') demoDb)
       = Err 500 ''Server error while resolving dispute.''
   \<and> statusAfter (resolveDispute demoEnvGone demoAdmin 7 (demoResolveBody ''cancelled'')
                     demoDb) 7 = Some ''cancelled''"
proof -
  have h: "role demoAdmin = ''admin''"
    "req_resolution (demoResolveBody x) = Some ''Reviewed by support''"
    "''Reviewed by support'' \<noteq> []"
    "req_finalStatus (demoResolveBody x) = Some x" for x
    by (simp_all add: demoAdmin_def demoResolveBody_def)
  have d1: "demoDb 7 = Some demoBooking" "dispute demoBooking = noDispute"
    "customer demoBooking \<notin> accounts demoEnvGone"
    by (simp_all add: demoDb_def demoBooking_def demoEnvGone_def)
  have d2: "(Map.empty(7 \<mapsto> demoSettled)) 7 = Some demoSettled"
    "customer demoSettled \<in> accounts demoEnv"
    by (simp_all add: demoSettled_def demoCompleted_def demoBooking_def demoEnv_def)
  have m: "''completed'' \<in> {''completed'', ''cancelled''}"
    "''cancelled'' \<in> {''completed'', ''cancelled''}"
    by simp_all
  from C5_resolution_of_any_dispute
         [where u=demoAdmin and body="demoResolveBody ''completed''"
            and db="Map.empty(7 \<mapsto> demoSettled)" and bid=7 and b=demoSettled and e=demoEnv,
          OF h(1) h(2) h(3) h(4) m(1) d2(1)] d2(2)
  have w1: "is_ok (fst (resolveDispute demoEnv demoAdmin 7 (demoResolveBody ''completed'')
                         (Map.empty(7 \<mapsto> demoSettled))))
            \<and> statusAfter (resolveDispute demoEnv demoAdmin 7 (demoResolveBody ''completed'')
                              (Map.empty(7 \<mapsto> demoSettled))) 7 = Some ''completed''"
    by simp
  from C5_resolution_of_any_dispute
         [where u=demoAdmin and body="demoResolveBody ''cancelled''"
            and db=demoDb and bid=7 and b=demoBooking and e=demoEnvGone,
          OF h(1) h(2) h(3) h(4) m(2) d1(1)] d1(3)
  have w2: "fst (resolveDispute demoEnvGone demoAdmin 7 (demoResolveBody ''cancelled'') demoDb)
              = Err 500 ''Server error while resolving dispute.''
            \<and> statusAfter (resolveDispute demoEnvGone demoAdmin 7 (demoResolveBody ''cancelled'')
                              demoDb) 7 = Some ''cancelled''"
    by simp
  from w1 w2 d1(2) show ?thesis
    by simp
qed

text \<open>
  C5 as stated fails: on the sample booking whose dispute is already resolved (in favour
  of completion), a second resolution by the administrator, now towards
  \<^verbatim>\<open>cancelled\<close>, succeeds; the booking is persisted as \<^verbatim>\<open>cancelled\<close> and its dispute
  carries the new resolution text.
\<close>

theorem C5_counterexample:
  "d_status (dispute demoResolved) = Some ''resolved''
   \<and> is_ok (fst (resolveDispute demoEnv demoAdmin 7 (demoResolveBody ''cancelled'')
                   (Map.empty(7 \<mapsto> demoResolved))))
   \<and> statusAfter (resolveDispute demoEnv demoAdmin 7 (demoResolveBody ''cancelled'')
                     (Map.empty(7 \<mapsto> demoResolved))) 7 = Some ''cancelled''
   \<and> map_option resolution
        (disputeAfter (resolveDispute demoEnv demoAdmin 7 (demoResolveBody ''cancelled'')
                         (Map.empty(7 \<mapsto> demoResolved))) 7)
       = Some (Some ''Reviewed by support'')
   \<and> snd (resolveDispute demoEnv demoAdmin 7 (demoResolveBody ''cancelled'')
             (Map.empty(7 \<mapsto> demoResolved))) 7 \<noteq> Some demoResolved"
  by (simp add: resolveDispute_def closeDispute_def derivePayment_def statusAfter_def
      disputeAfter_def demoResolved_def demoCompleted_def demoBooking_def demoAdmin_def
      demoResolveBody_def demoEnv_def Let_def)

subsection \<open>C6: derivation of the payment status\<close>

text \<open>
  C6, as the code has it. The payment status after a successful operation is a function
  of the previous one and of the operation: a
  status request for \<^verbatim>\<open>completed\<close> on a booking awaiting verification (by the vendor
  with the code, or forced by an administrator) gives \<^verbatim>\<open>payout_pending\<close>; a dispute
  resolution gives \<^verbatim>\<open>payout_pending\<close> for \<^verbatim>\<open>completed\<close> and \<^verbatim>\<open>refund_pending\<close> for
  \<^verbatim>\<open>cancelled\<close>; every other successful status request, the raising of a dispute, a
  review, the vendor route and the customer's read of the code leave it as it was. A
  dispute resolution that has written the booking and then answers 500 has derived the
  same value. These values are written whatever the previous status, so the payment status
  does not move backward provided the previous status is neither \<^verbatim>\<open>paid_to_vendor\<close>
  nor \<^verbatim>\<open>refunded\<close>.
\<close>

theorem C6_payment_status_derivation:
  assumes "db bid = Some b"
  shows "(is_ok (fst (changeStatus e u bid body db)) \<longrightarrow>
            payStatusAfter (changeStatus e u bid body db) bid
              = Some (if req_status body = ''completed'' \<and> status b = ''verification-pending''
                      then ''payout_pending'' else payStatus b))
       \<and> (is_ok (fst (resolveDispute e u bid rbody db)) \<longrightarrow>
            payStatusAfter (resolveDispute e u bid rbody db) bid
              = Some (if req_finalStatus rbody = Some ''completed''
                      then ''payout_pending'' else ''refund_pending''))
       \<and> (snd (resolveDispute e u bid rbody db) bid \<noteq> Some b \<longrightarrow>
            payStatusAfter (resolveDispute e u bid rbody db) bid
              = Some (if req_finalStatus rbody = Some ''completed''
                      then ''payout_pending'' else ''refund_pending''))
       \<and> (is_ok (fst (raiseDispute e u bid dbody db)) \<longrightarrow>
            payStatusAfter (raiseDispute e u bid dbody db) bid = Some (payStatus b))
       \<and> (is_ok (fst (submitReview e u bid sbody db)) \<longrightarrow>
            payStatusAfter (submitReview e u bid sbody db) bid = Some (payStatus b))
       \<and> (is_ok (fst (vendorUpdateStatus e u vp bid vbody db)) \<longrightarrow>
            payStatusAfter (vendorUpdateStatus e u vp bid vbody db) bid = Some (payStatus b))
       \<and> payStatusAfter (getOtp e u bid db) bid = Some (payStatus b)
       \<and> (payStatus b \<notin> {''paid_to_vendor'', ''refunded''} \<longrightarrow>
            \<not> movesBackward (payStatus b) (payStatus b)
            \<and> \<not> movesBackward (payStatus b) ''payout_pending''
            \<and> \<not> movesBackward (payStatus b) ''refund_pending'')"
proof -
  have c: "is_ok (fst (changeStatus e u bid body db)) \<longrightarrow>
            payStatusAfter (changeStatus e u bid body db) bid
              = Some (if req_status body = ''completed'' \<and> status b = ''verification-pending''
                      then ''payout_pending'' else payStatus b)"
    using changeStatus_persist [where db=db and bid=bid and b=b and e=e and u=u and body=body,
                                OF assms]
    by (simp add: payStatusAfter_def payStatus_def applyStatus_fields consumeOtp_fields)
  have r0: "payStatusAfter (resolveDispute e u bid rbody db) bid
              = Some (if req_finalStatus rbody = Some ''completed''
                      then ''payout_pending'' else ''refund_pending'')"
    if t: "truthy (req_finalStatus rbody)"
      and fin: "or_else (req_finalStatus rbody) [] \<in> {''completed'', ''cancelled''}"
      and per: "snd (resolveDispute e u bid rbody db) bid =
                  Some (closeDispute e u (or_else (req_resolution rbody) [])
                          (or_else (req_finalStatus rbody) []) b)"
  proof -
    from or_else_truthy [OF t]
    have eq: "req_finalStatus rbody = Some (or_else (req_finalStatus rbody) [])"
      by simp
    from fin show ?thesis
      unfolding payStatusAfter_persisted [OF per]
      by (subst eq) (auto simp add: payStatus_def closeDispute_fields derivePayment_def)
  qed
  have r: "is_ok (fst (resolveDispute e u bid rbody db)) \<longrightarrow>
            payStatusAfter (resolveDispute e u bid rbody db) bid
              = Some (if req_finalStatus rbody = Some ''completed''
                      then ''payout_pending'' else ''refund_pending'')"
    using resolveDispute_persist
            [where db=db and bid=bid and b=b and e=e and u=u and body=rbody, OF assms] r0
    by blast
  have r': "snd (resolveDispute e u bid rbody db) bid \<noteq> Some b \<longrightarrow>
            payStatusAfter (resolveDispute e u bid rbody db) bid
              = Some (if req_finalStatus rbody = Some ''completed''
                      then ''payout_pending'' else ''refund_pending'')"
    using resolveDispute_store
            [where db=db and bid=bid and b=b and e=e and u=u and body=rbody, OF assms] r0
    by blast
  have d: "is_ok (fst (raiseDispute e u bid dbody db)) \<longrightarrow>
            payStatusAfter (raiseDispute e u bid dbody db) bid = Some (payStatus b)"
    using raiseDispute_persist [where db=db and bid=bid and b=b and e=e and u=u and body=dbody,
                                OF assms]
    by (simp add: payStatusAfter_def payStatus_def openDispute_fields)
  have s: "is_ok (fst (submitReview e u bid sbody db)) \<longrightarrow>
            payStatusAfter (submitReview e u bid sbody db) bid = Some (payStatus b)"
    using submitReview_persist [where db=db and bid=bid and b=b and e=e and u=u and body=sbody,
                                OF assms]
    by (simp add: payStatusAfter_def payStatus_def setRating_fields)
  have v: "is_ok (fst (vendorUpdateStatus e u vp bid vbody db)) \<longrightarrow>
            payStatusAfter (vendorUpdateStatus e u vp bid vbody db) bid = Some (payStatus b)"
    using vendorUpdateStatus_persist
            [where db=db and bid=bid and b=b and e=e and u=u and body=vbody and p=vp,
             OF assms]
    by (simp add: payStatusAfter_def payStatus_def vendorApply_fields)
  have g: "payStatusAfter (getOtp e u bid db) bid = Some (payStatus b)"
    using getOtp_persist [where db=db and bid=bid and b=b and e=e and u=u, OF assms]
    by (simp add: payStatusAfter_def payStatus_def regenerateOtp_fields)
  have m: "payStatus b \<notin> {''paid_to_vendor'', ''refunded''} \<longrightarrow>
            \<not> movesBackward (payStatus b) (payStatus b)
            \<and> \<not> movesBackward (payStatus b) ''payout_pending''
            \<and> \<not> movesBackward (payStatus b) ''refund_pending''"
    by (auto simp add: movesBackward_def reach_payout_pending reach_refund_pending)
  from c r r' d s v g m show ?thesis
    by blast
qed

theorem C6_witness:
  "payStatusAfter (changeStatus demoEnv demoVendor 7 (completeBody (Some ''123456'')) demoDb) 7
     = Some ''payout_pending''
   \<and> \<not> movesBackward ''paid_to_platform'' ''payout_pending''"
proof -
  have h: "demoDb 7 = Some demoBooking"
    by (simp add: demoDb_def)
  have ok: "is_ok (fst (changeStatus demoEnv demoVendor 7 (completeBody (Some ''123456''))
                         demoDb))"
    by (simp add: changeStatus_ok_iff [where db=demoDb and bid=7 and b=demoBooking, OF h]
        validStatuses_def demoBooking_def demoVendor_def completeBody_def)
  from C6_payment_status_derivation
         [where db=demoDb and bid=7 and b=demoBooking and e=demoEnv
            and u=demoVendor and body="completeBody (Some ''123456'')", OF h] ok
  show ?thesis
    by (simp add: completeBody_def demoBooking_def demoPayment_def payStatus_def)
qed

text \<open>
  C6 as stated fails: the sample booking was paid out to the vendor and then disputed; the
  administrator resolves the dispute towards \<^verbatim>\<open>completed\<close>, and the payment status
  goes from \<^verbatim>\<open>paid_to_vendor\<close> back to \<^verbatim>\<open>payout_pending\<close>.
\<close>

theorem C6_counterexample:
  "payStatus demoSettled = ''paid_to_vendor''
   \<and> is_ok (fst (resolveDispute demoEnv demoAdmin 7 (demoResolveBody ''completed'')
                   (Map.empty(7 \<mapsto> demoSettled))))
   \<and> payStatusAfter (resolveDispute demoEnv demoAdmin 7 (demoResolveBody ''completed'')
                       (Map.empty(7 \<mapsto> demoSettled))) 7 = Some ''payout_pending''
   \<and> movesBackward ''paid_to_vendor'' ''payout_pending''"
proof -
  have "movesBackward ''paid_to_vendor'' ''payout_pending''"
    by (simp add: movesBackward_def reach_payout_pending)
  then show ?thesis
    by (simp add: resolveDispute_def closeDispute_def derivePayment_def payStatusAfter_def
        payStatus_def demoSettled_def demoCompleted_def demoBooking_def demoPayment_def
        demoAdmin_def demoResolveBody_def demoEnv_def Let_def)
qed

subsection \<open>C7: completion forced by an administrator\<close>

text \<open>
  C7, as the code has it. On a booking awaiting verification, an administrator (who is
  neither its customer nor its vendor) asking for \<^verbatim>\<open>completed\<close>, with or without a code,
  succeeds; the one timeline entry appended has status \<^verbatim>\<open>completed\<close> and carries the
  request's notes when it has any, and otherwise the generic note
  \<^verbatim>\<open>Status updated to completed by admin\<close>.
\<close>

theorem C7_admin_forced_completion:
  assumes "db bid = Some b"
    and "status b = ''verification-pending''"
    and "role u = ''admin''"
    and "customer b \<noteq> uid u"
    and "vendor_user b \<noteq> Some (uid u)"
    and "req_status body = ''completed''"
  shows "is_ok (fst (changeStatus e u bid body db))
       \<and> statusAfter (changeStatus e u bid body db) bid = Some ''completed''
       \<and> otpAfter (changeStatus e u bid body db) bid = Some None
       \<and> timelineAfter (changeStatus e u bid body db) bid
           = Some (timeline b @
               [\<lparr>t_status = ''completed'',
                 t_note = or_else (req_notes body) ''Status updated to completed by admin'',
                 timestamp = now e\<rparr>])"
proof -
  have ok: "is_ok (fst (changeStatus e u bid body db))"
    using assms by (simp add: changeStatus_ok_iff [where db=db and bid=bid and b=b] validStatuses_def)
  from changeStatus_persist [where db=db and bid=bid and b=b, OF assms(1) ok] assms(2,3,6) show ?thesis
    by (simp add: ok otpAfter_def statusAfter_def timelineAfter_def applyStatus_fields
        consumeOtp_fields statusEntry_def)
qed

theorem C7_witness:
  "statusAfter (changeStatus demoEnv demoAdmin 7
       \<lparr>req_status = ''completed'', req_notes = Some ''Customer confirmed by phone'',
         req_otp = None\<rparr> demoDb) 7 = Some ''completed''
   \<and> timelineAfter (changeStatus demoEnv demoAdmin 7
       \<lparr>req_status = ''completed'', req_notes = Some ''Customer confirmed by phone'',
         req_otp = None\<rparr> demoDb) 7
     = Some [\<lparr>t_status = ''completed'', t_note = ''Customer confirmed by phone'',
              timestamp = 1000000\<rparr>]"
proof -
  have h: "demoDb 7 = Some demoBooking" "status demoBooking = ''verification-pending''"
    "role demoAdmin = ''admin''" "customer demoBooking \<noteq> uid demoAdmin"
    "vendor_user demoBooking \<noteq> Some (uid demoAdmin)"
    by (simp_all add: demoDb_def demoBooking_def demoAdmin_def)
  from C7_admin_forced_completion
         [of demoDb 7 demoBooking demoAdmin
             "\<lparr>req_status = ''completed'', req_notes = Some ''Customer confirmed by phone'',
               req_otp = None\<rparr>" demoEnv, OF h]
  show ?thesis
    by (simp add: demoBooking_def demoEnv_def)
qed

text \<open>
  C7 as stated fails: the administrator forces the sample booking to \<^verbatim>\<open>completed\<close>
  with no code and no notes (what the admin page sends); the entry appended reads
  \<^verbatim>\<open>Status updated to completed by admin\<close>, in which neither \<^verbatim>\<open>ypass\<close> nor
  \<^verbatim>\<open>erification\<close> occurs, in either capitalisation of their first letters.
\<close>

theorem C7_counterexample:
  "is_ok (fst (changeStatus demoEnv demoAdmin 7 (setBody ''completed'') demoDb))
   \<and> timelineAfter (changeStatus demoEnv demoAdmin 7 (setBody ''completed'') demoDb) 7
       = Some [\<lparr>t_status = ''completed'', t_note = ''Status updated to completed by admin'',
                timestamp = 1000000\<rparr>]
   \<and> \<not> sublist ''ypass'' ''Status updated to completed by admin''
   \<and> \<not> sublist ''erification'' ''Status updated to completed by admin''"
proof -
  have "\<not> sublist ''ypass'' ''Status updated to completed by admin''"
    by code_simp
  moreover have "\<not> sublist ''erification'' ''Status updated to completed by admin''"
    by code_simp
  ultimately show ?thesis
    by (simp add: changeStatus_def validStatuses_def allowedVendorStatuses_def
        otpVerification_def roleValidation_def applyStatus_def generateOtp_def setNotes_def
        statusEntry_def consumeOtp_def timelineAfter_def demoDb_def demoBooking_def
        demoAdmin_def demoEnv_def setBody_def Let_def)
qed

subsection \<open>C8: a second review\<close>

text \<open>
  C8 against the code. The handler's guard against a second review,
  \<^verbatim>\<open>booking.rating && booking.rating.score\<close> (under the comment
  \<^verbatim>\<open>Prevent submitting more than one review\<close>), looks at the score only. The customer of
  the completed sample booking first submits a review with a text and no score, which is
  saved; a second submission, now with a score, is accepted as well and replaces the
  stored rating.
\<close>

theorem C8_second_review_accepted:
  "is_ok (fst (submitReview demoEnv demoCustomer 7
                 \<lparr>req_score = None, req_review = Some ''Fine''\<rparr>
                 (Map.empty(7 \<mapsto> demoCompleted))))
   \<and> ratingAfter (submitReview demoEnv demoCustomer 7
                     \<lparr>req_score = None, req_review = Some ''Fine''\<rparr>
                     (Map.empty(7 \<mapsto> demoCompleted))) 7
       = Some \<lparr>score = None, review = Some ''Fine'', r_date = Some 1000000\<rparr>
   \<and> is_ok (fst (submitReview demoEnv demoCustomer 7
                   \<lparr>req_score = Some 1, req_review = Some ''Terrible''\<rparr>
                   (snd (submitReview demoEnv demoCustomer 7
                          \<lparr>req_score = None, req_review = Some ''Fine''\<rparr>
                          (Map.empty(7 \<mapsto> demoCompleted))))))
   \<and> ratingAfter (submitReview demoEnv demoCustomer 7
                     \<lparr>req_score = Some 1, req_review = Some ''Terrible''\<rparr>
                     (snd (submitReview demoEnv demoCustomer 7
                            \<lparr>req_score = None, req_review = Some ''Fine''\<rparr>
                            (Map.empty(7 \<mapsto> demoCompleted))))) 7
       = Some \<lparr>score = Some 1, review = Some ''Terrible'', r_date = Some 1000000\<rparr>"
  by (simp add: submitReview_def hasScore_def scoreValid_def setRating_def ratingAfter_def
      demoCompleted_def demoBooking_def demoCustomer_def demoEnv_def Let_def)

subsection \<open>C9: the expiry is not part of the completion check\<close>

text \<open>
  C9, as the code has it. The completion check compares the code and nothing else. On a
  booking awaiting verification whose expiry \<open>x\<close> is already before the clock, the
  booking's vendor, when not also its customer, asking for \<^verbatim>\<open>completed\<close> succeeds
  exactly when the request carries a code and that code is the stored one; the booking is
  then persisted as \<^verbatim>\<open>completed\<close>. For every caller and request, the answer of the
  status handler is the same, up to the expiry field it carries along, for every stored
  expiry \<open>y\<close>. The customer's read of the code is where the expiry is consulted: on
  this expired booking it stores a new code and an expiry ten minutes (600000 ms) after
  the clock, and answers with the new code.
\<close>

theorem C9_completion_ignores_expiry:
  assumes "db bid = Some b"
    and "status b = ''verification-pending''"
    and "vendor_user b = Some (uid u)"
    and "customer b \<noteq> uid u"
    and "req_status body = ''completed''"
    and "completionOtpExpires b = Some x"
    and "x < now e"
  shows "(is_ok (fst (changeStatus e u bid body db)) \<longleftrightarrow>
            truthy (req_otp body) \<and> req_otp body = completionOtp b)
       \<and> (is_ok (fst (changeStatus e u bid body db)) \<longrightarrow>
            statusAfter (changeStatus e u bid body db) bid = Some ''completed'')
       \<and> (\<forall>u' body' y.
             dropExpires (fst (changeStatus e u' bid body'
                                (db(bid \<mapsto> b\<lparr>completionOtpExpires := y\<rparr>))))
               = dropExpires (fst (changeStatus e u' bid body' db)))
       \<and> (\<forall>c. customer b = uid c \<longrightarrow>
             getOtp e c bid db
               = (Ok (Some (dec (otp_draw e))),
                  db(bid \<mapsto> b\<lparr>completionOtp := Some (dec (otp_draw e)),
                               completionOtpExpires := Some (now e + 600000)\<rparr>)))"
proof -
  have ok: "is_ok (fst (changeStatus e u bid body db)) \<longleftrightarrow>
            truthy (req_otp body) \<and> req_otp body = completionOtp b"
    using assms
    by (auto simp add: changeStatus_ok_iff [where db=db and bid=bid and b=b] validStatuses_def)
  have st: "is_ok (fst (changeStatus e u bid body db)) \<longrightarrow>
            statusAfter (changeStatus e u bid body db) bid = Some ''completed''"
    using changeStatus_persist [where db=db and bid=bid and b=b and e=e and u=u and body=body,
                                OF assms(1)] assms(5)
    by (simp add: statusAfter_def applyStatus_fields)
  have ind: "\<forall>u' body' y.
      dropExpires (fst (changeStatus e u' bid body' (db(bid \<mapsto> b\<lparr>completionOtpExpires := y\<rparr>))))
        = dropExpires (fst (changeStatus e u' bid body' db))"
    using changeStatus_ignores_expiry [where db=db and bid=bid and b=b, OF assms(1)] by blast
  have otp: "\<forall>c. customer b = uid c \<longrightarrow>
      getOtp e c bid db
        = (Ok (Some (dec (otp_draw e))),
           db(bid \<mapsto> b\<lparr>completionOtp := Some (dec (otp_draw e)),
                        completionOtpExpires := Some (now e + 600000)\<rparr>))"
    using assms(1,2,6,7) by (simp add: getOtp_def otpStale_def regenerateOtp_def Let_def)
  from ok st ind otp show ?thesis
    by blast
qed

theorem C9_witness:
  "is_ok (fst (changeStatus demoEnv demoVendor 7 (completeBody (Some ''123456'')) demoDb))
   \<and> \<not> is_ok (fst (changeStatus demoEnv demoVendor 7 (completeBody (Some ''654321'')) demoDb))
   \<and> getOtp demoEnv demoCustomer 7 demoDb
       = (Ok (Some (dec 654321)),
          demoDb(7 \<mapsto> demoBooking\<lparr>completionOtp := Some (dec 654321),
                                   completionOtpExpires := Some 1600000\<rparr>))"
proof -
  have h: "demoDb 7 = Some demoBooking" "status demoBooking = ''verification-pending''"
    "vendor_user demoBooking = Some (uid demoVendor)" "customer demoBooking \<noteq> uid demoVendor"
    "req_status (completeBody z) = ''completed''"
    "completionOtpExpires demoBooking = Some 600000"
    "600000 < now demoEnv" for z
    by (simp_all add: demoDb_def demoBooking_def demoVendor_def completeBody_def demoEnv_def)
  have c: "customer demoBooking = uid demoCustomer"
    "completionOtp demoBooking = Some ''123456''" "req_otp (completeBody z) = z" for z
    by (simp_all add: demoBooking_def demoCustomer_def completeBody_def)
  from C9_completion_ignores_expiry
         [of demoDb 7 demoBooking demoVendor "completeBody (Some ''123456'')" 600000 demoEnv,
          OF h] c
  have w1: "is_ok (fst (changeStatus demoEnv demoVendor 7 (completeBody (Some ''123456''))
                         demoDb))
            \<and> getOtp demoEnv demoCustomer 7 demoDb
                = (Ok (Some (dec 654321)),
                   demoDb(7 \<mapsto> demoBooking\<lparr>completionOtp := Some (dec 654321),
                                            completionOtpExpires := Some 1600000\<rparr>))"
    by (simp add: demoEnv_def)
  from C9_completion_ignores_expiry
         [of demoDb 7 demoBooking demoVendor "completeBody (Some ''654321'')" 600000 demoEnv,
          OF h] c
  have w2: "\<not> is_ok (fst (changeStatus demoEnv demoVendor 7 (completeBody (Some ''654321''))
                           demoDb))"
    by simp
  from w1 w2 show ?thesis
    by simp
qed

text \<open>
  C9 as stated fails: on the sample booking whose customer is the vendor's own account,
  awaiting verification with the code 123456, the vendor's request for \<^verbatim>\<open>completed\<close>
  with that very code is refused by the customer rule with 403, and nothing is written.
\<close>

theorem C9_counterexample:
  "status demoSelfBooked = ''verification-pending''
   \<and> vendor_user demoSelfBooked = Some (uid demoVendor)
   \<and> completionOtp demoSelfBooked = Some ''123456''
   \<and> changeStatus demoEnv demoVendor 7 (completeBody (Some ''123456''))
        (Map.empty(7 \<mapsto> demoSelfBooked))
       = (Err 403 ''As a customer, you can only cancel a booking.'',
          Map.empty(7 \<mapsto> demoSelfBooked))"
  by (simp add: changeStatus_def validStatuses_def otpVerification_def roleValidation_def
      consumeOtp_def demoSelfBooked_def demoBooking_def demoVendor_def completeBody_def
      Let_def)

subsection \<open>C10: cancellation and the payment\<close>

text \<open>
  C10. A cancellation through the status handler, by whichever caller, leaves the payment
  sub-document exactly as it was. No handler other than the dispute resolution makes the
  payment status \<^verbatim>\<open>refund_pending\<close>: after a successful status request, dispute raise,
  review, vendor-route update or read of the code it is \<^verbatim>\<open>refund_pending\<close> only if it
  was before. The dispute resolution leaves it \<^verbatim>\<open>refund_pending\<close> only when the final
  status is \<^verbatim>\<open>cancelled\<close>, and then always; a resolution that answers 500 after it
  has written the booking makes it \<^verbatim>\<open>refund_pending\<close> under the same condition only.
\<close>

theorem C10_cancellation_keeps_payment:
  assumes "db bid = Some b"
  shows "(req_status body = ''cancelled'' \<and> is_ok (fst (changeStatus e u bid body db)) \<longrightarrow>
            paymentAfter (changeStatus e u bid body db) bid = Some (payment b))
       \<and> (is_ok (fst (changeStatus e u bid body db))
            \<and> payStatusAfter (changeStatus e u bid body db) bid = Some ''refund_pending'' \<longrightarrow>
            payStatus b = ''refund_pending'')
       \<and> (is_ok (fst (raiseDispute e u bid dbody db)) \<longrightarrow>
            paymentAfter (raiseDispute e u bid dbody db) bid = Some (payment b))
       \<and> (is_ok (fst (submitReview e u bid sbody db)) \<longrightarrow>
            paymentAfter (submitReview e u bid sbody db) bid = Some (payment b))
       \<and> (is_ok (fst (vendorUpdateStatus e u vp bid vbody db)) \<longrightarrow>
            paymentAfter (vendorUpdateStatus e u vp bid vbody db) bid = Some (payment b))
       \<and> paymentAfter (getOtp e u bid db) bid = Some (payment b)
       \<and> (is_ok (fst (resolveDispute e u bid rbody db))
            \<and> payStatusAfter (resolveDispute e u bid rbody db) bid = Some ''refund_pending'' \<longrightarrow>
            req_finalStatus rbody = Some ''cancelled'')
       \<and> (is_ok (fst (resolveDispute e u bid rbody db))
            \<and> req_finalStatus rbody = Some ''cancelled'' \<longrightarrow>
            payStatusAfter (resolveDispute e u bid rbody db) bid = Some ''refund_pending'')
       \<and> (payStatusAfter (resolveDispute e u bid rbody db) bid = Some ''refund_pending''
            \<and> payStatus b \<noteq> ''refund_pending'' \<longrightarrow>
            req_finalStatus rbody = Some ''cancelled'')"
proof -
  have c1: "req_status body = ''cancelled'' \<and> is_ok (fst (changeStatus e u bid body db)) \<longrightarrow>
            paymentAfter (changeStatus e u bid body db) bid = Some (payment b)"
    using changeStatus_persist [where db=db and bid=bid and b=b and e=e and u=u and body=body,
                                OF assms]
    by (simp add: paymentAfter_def applyStatus_fields)
  have c2: "is_ok (fst (changeStatus e u bid body db))
            \<and> payStatusAfter (changeStatus e u bid body db) bid = Some ''refund_pending'' \<longrightarrow>
            payStatus b = ''refund_pending''"
    using changeStatus_persist [where db=db and bid=bid and b=b and e=e and u=u and body=body,
                                OF assms]
    by (auto simp add: payStatusAfter_def payStatus_def applyStatus_fields consumeOtp_fields
        split: if_splits)
  have d: "is_ok (fst (raiseDispute e u bid dbody db)) \<longrightarrow>
            paymentAfter (raiseDispute e u bid dbody db) bid = Some (payment b)"
    using raiseDispute_persist [where db=db and bid=bid and b=b and e=e and u=u and body=dbody,
                                OF assms]
    by (simp add: paymentAfter_def openDispute_fields)
  have s: "is_ok (fst (submitReview e u bid sbody db)) \<longrightarrow>
            paymentAfter (submitReview e u bid sbody db) bid = Some (payment b)"
    using submitReview_persist [where db=db and bid=bid and b=b and e=e and u=u and body=sbody,
                                OF assms]
    by (simp add: paymentAfter_def setRating_fields)
  have v: "is_ok (fst (vendorUpdateStatus e u vp bid vbody db)) \<longrightarrow>
            paymentAfter (vendorUpdateStatus e u vp bid vbody db) bid = Some (payment b)"
    using vendorUpdateStatus_persist
            [where db=db and bid=bid and b=b and e=e and u=u and body=vbody and p=vp, OF assms]
    by (simp add: paymentAfter_def vendorApply_fields)
  have g: "paymentAfter (getOtp e u bid db) bid = Some (payment b)"
    using getOtp_persist [where db=db and bid=bid and b=b and e=e and u=u, OF assms]
    by (simp add: paymentAfter_def regenerateOtp_fields)
  have r0: "payStatusAfter (resolveDispute e u bid rbody db) bid
              = Some (if req_finalStatus rbody = Some ''completed''
                      then ''payout_pending'' else ''refund_pending'')
            \<and> req_finalStatus rbody \<in> {Some ''completed'', Some ''cancelled''}"
    if t: "truthy (req_finalStatus rbody)"
      and fin: "or_else (req_finalStatus rbody) [] \<in> {''completed'', ''cancelled''}"
      and per: "snd (resolveDispute e u bid rbody db) bid =
                  Some (closeDispute e u (or_else (req_resolution rbody) [])
                          (or_else (req_finalStatus rbody) []) b)"
  proof -
    from or_else_truthy [OF t]
    have eq: "req_finalStatus rbody = Some (or_else (req_finalStatus rbody) [])"
      by simp
    from fin show ?thesis
      unfolding payStatusAfter_persisted [OF per]
      by (subst (1 2) eq) (auto simp add: payStatus_def closeDispute_fields derivePayment_def)
  qed
  have r: "payStatusAfter (resolveDispute e u bid rbody db) bid
             = Some (if req_finalStatus rbody = Some ''completed''
                     then ''payout_pending'' else ''refund_pending'')
           \<and> req_finalStatus rbody \<in> {Some ''completed'', Some ''cancelled''}"
    if ok: "is_ok (fst (resolveDispute e u bid rbody db))"
    using resolveDispute_persist
            [where db=db and bid=bid and b=b and e=e and u=u and body=rbody, OF assms ok] r0
    by blast
  have r1: "is_ok (fst (resolveDispute e u bid rbody db))
            \<and> payStatusAfter (resolveDispute e u bid rbody db) bid = Some ''refund_pending'' \<longrightarrow>
            req_finalStatus rbody = Some ''cancelled''"
    using r by (auto split: if_splits)
  have r2: "is_ok (fst (resolveDispute e u bid rbody db))
            \<and> req_finalStatus rbody = Some ''cancelled'' \<longrightarrow>
            payStatusAfter (resolveDispute e u bid rbody db) bid = Some ''refund_pending''"
    using r by auto
  have r3: "payStatusAfter (resolveDispute e u bid rbody db) bid = Some ''refund_pending''
            \<and> payStatus b \<noteq> ''refund_pending'' \<longrightarrow>
            req_finalStatus rbody = Some ''cancelled''"
  proof (cases "snd (resolveDispute e u bid rbody db) bid = Some b")
    case True
    then show ?thesis
      by (simp add: payStatusAfter_def)
  next
    case False
    with resolveDispute_store
           [where db=db and bid=bid and b=b and e=e and u=u and body=rbody, OF assms] r0
    have "payStatusAfter (resolveDispute e u bid rbody db) bid
             = Some (if req_finalStatus rbody = Some ''completed''
                     then ''payout_pending'' else ''refund_pending'')
           \<and> req_finalStatus rbody \<in> {Some ''completed'', Some ''cancelled''}"
      by blast
    then show ?thesis
      by (auto split: if_splits)
  qed
  from c1 c2 d s v g r1 r2 r3 show ?thesis
    by blast
qed

theorem C10_witness:
  "paymentAfter (changeStatus demoEnv demoCustomer 7 (setBody ''cancelled'') demoDb) 7
     = Some demoPayment
   \<and> paymentAfter (changeStatus demoEnv demoVendor 7 (setBody ''cancelled'') demoDb) 7
     = Some demoPayment
   \<and> payStatusAfter (resolveDispute demoEnv demoAdmin 7 (demoResolveBody ''cancelled'')
                       (Map.empty(7 \<mapsto> demoSettled))) 7 = Some ''refund_pending''"
proof -
  have h: "demoDb 7 = Some demoBooking"
    by (simp add: demoDb_def)
  have h2: "(Map.empty(7 \<mapsto> demoSettled)) 7 = Some demoSettled"
    by simp
  have ok1: "is_ok (fst (changeStatus demoEnv demoCustomer 7 (setBody ''cancelled'') demoDb))"
    by (simp add: changeStatus_ok_iff [where db=demoDb and bid=7 and b=demoBooking, OF h]
        validStatuses_def demoBooking_def demoCustomer_def setBody_def)
  have ok2: "is_ok (fst (changeStatus demoEnv demoVendor 7 (setBody ''cancelled'') demoDb))"
    by (simp add: changeStatus_ok_iff [where db=demoDb and bid=7 and b=demoBooking, OF h]
        validStatuses_def demoBooking_def demoVendor_def setBody_def)
  have ok3: "is_ok (fst (resolveDispute demoEnv demoAdmin 7 (demoResolveBody ''cancelled'')
                          (Map.empty(7 \<mapsto> demoSettled))))"
    by (simp add: resolveDispute_def demoSettled_def demoCompleted_def demoBooking_def
        demoAdmin_def demoResolveBody_def demoEnv_def Let_def)
  have p: "payment demoBooking = demoPayment"
    "req_status (setBody ''cancelled'') = ''cancelled''"
    "req_finalStatus (demoResolveBody ''cancelled'') = Some ''cancelled''"
    by (simp_all add: demoBooking_def demoSettled_def setBody_def demoResolveBody_def)
  from C10_cancellation_keeps_payment
         [where db=demoDb and bid=7 and b=demoBooking and e=demoEnv and u=demoCustomer
            and body="setBody ''cancelled''", OF h, THEN conjunct1] ok1 p
  have w1: "paymentAfter (changeStatus demoEnv demoCustomer 7 (setBody ''cancelled'') demoDb) 7
              = Some demoPayment"
    by simp
  from C10_cancellation_keeps_payment
         [where db=demoDb and bid=7 and b=demoBooking and e=demoEnv and u=demoVendor
            and body="setBody ''cancelled''", OF h, THEN conjunct1] ok2 p
  have w2: "paymentAfter (changeStatus demoEnv demoVendor 7 (setBody ''cancelled'') demoDb) 7
              = Some demoPayment"
    by simp
  from C10_cancellation_keeps_payment
         [where db="Map.empty(7 \<mapsto> demoSettled)" and bid=7 and b=demoSettled and e=demoEnv
            and u=demoAdmin and rbody="demoResolveBody ''cancelled''", OF h2,
          THEN conjunct2, THEN conjunct2, THEN conjunct2, THEN conjunct2, THEN conjunct2,
          THEN conjunct2, THEN conjunct2, THEN conjunct1] ok3 p
  have w3: "payStatusAfter (resolveDispute demoEnv demoAdmin 7 (demoResolveBody ''cancelled'')
                             (Map.empty(7 \<mapsto> demoSettled))) 7 = Some ''refund_pending''"
    by simp
  from w1 w2 w3 show ?thesis
    by simp
qed

end
